theory Spec2Isabelle
  imports Main "HOL-Library.Word" "HOL-Library.Sublist" "HOL-Library.Char_ord"
    "HOL-Library.List_Lexorder" "HOL-Library.AList"
begin

section \<open>Go library functions used by the sources\<close>

text \<open>
  Go strings are byte sequences; they are modelled as \<open>string\<close> (lists of 8-bit
  characters). Go's \<open>int\<close> and \<open>uint\<close> are taken to be 64 bits wide (the exporter
  runs on 64-bit Linux only).
\<close>

subsection \<open>Package strings\<close>

text \<open>\<open>strings.Contains(s, substr)\<close>: \<open>substr\<close> occurs contiguously in \<open>s\<close>.\<close>

fun strings_Contains :: "string \<Rightarrow> string \<Rightarrow> bool" where
  "strings_Contains [] substr = (substr = [])"
| "strings_Contains (c # s) substr = (prefix substr (c # s) \<or> strings_Contains s substr)"

text \<open>
  \<open>strings.Split(s, sep)\<close> for a separator of one byte (the sources only split at
  \<open>" "\<close>): the pieces between the occurrences of the separator, one more than there
  are occurrences.
\<close>

fun strings_Split :: "string \<Rightarrow> char \<Rightarrow> string list" where
  "strings_Split [] sep = [[]]"
| "strings_Split (c # s) sep =
     (if c = sep then [] # strings_Split s sep
      else (c # hd (strings_Split s sep)) # tl (strings_Split s sep))"

subsection \<open>Package strconv\<close>

datatype NumError = ErrSyntax | ErrRange

definition isDigit :: "char \<Rightarrow> bool" where
  "isDigit c = (of_char CHR ''0'' \<le> (of_char c :: nat) \<and> (of_char c :: nat) \<le> of_char CHR ''9'')"

definition digitVal :: "char \<Rightarrow> nat" where
  "digitVal c = of_char c - of_char CHR ''0''"

definition maxUint64 :: nat where
  "maxUint64 = 2 ^ 64 - 1"

text \<open>
  The digit loop of \<open>strconv.ParseUint(s, 10, bitSize)\<close>. A byte that is no decimal
  digit is a syntax error with value 0; an overflow is a range error with value
  \<open>maxVal\<close>, returned at once: the bytes after the overflow are not looked at.
\<close>

fun ParseUint_loop :: "nat \<Rightarrow> nat \<Rightarrow> string \<Rightarrow> nat \<times> NumError option" where
  "ParseUint_loop maxVal n [] = (n, None)"
| "ParseUint_loop maxVal n (c # s) =
     (if \<not> isDigit c then (0, Some ErrSyntax)
      else if maxUint64 div 10 + 1 \<le> n then (maxVal, Some ErrRange)
      else (let n1 = n * 10 + digitVal c in
        if maxUint64 < n1 \<or> maxVal < n1 then (maxVal, Some ErrRange)
        else ParseUint_loop maxVal n1 s))"

definition ParseUint :: "string \<Rightarrow> nat \<Rightarrow> nat \<times> NumError option" where
  "ParseUint s bitSize =
     (if s = [] then (0, Some ErrSyntax)
      else ParseUint_loop (2 ^ (if bitSize = 0 then 64 else bitSize) - 1) 0 s)"

text \<open>\<open>strconv.ParseInt(s, 10, 0)\<close>: a sign, then \<open>ParseUint\<close>, clamped to the 64-bit range.\<close>

definition ParseInt :: "string \<Rightarrow> int \<times> NumError option" where
  "ParseInt s =
     (if s = [] then (0, Some ErrSyntax)
      else (let neg = (hd s = CHR ''-'');
                s1 = (if hd s = CHR ''+'' \<or> hd s = CHR ''-'' then tl s else s);
                un = fst (ParseUint s1 64);
                err = snd (ParseUint s1 64);
                cutoff = (2 :: nat) ^ 63
            in if err = Some ErrSyntax then (0, err)
               else if \<not> neg \<and> cutoff \<le> un then (int cutoff - 1, Some ErrRange)
               else if neg \<and> cutoff < un then (- int cutoff, Some ErrRange)
               else (if neg then - int un else int un, None)))"

text \<open>The fast path of \<open>strconv.Atoi\<close> for inputs of fewer than 19 bytes.\<close>

fun Atoi_fast :: "nat \<Rightarrow> string \<Rightarrow> nat option" where
  "Atoi_fast n [] = Some n"
| "Atoi_fast n (ch # s) = (if isDigit ch then Atoi_fast (n * 10 + digitVal ch) s else None)"

definition Atoi :: "string \<Rightarrow> int \<times> NumError option" where
  "Atoi s =
     (if 0 < length s \<and> length s < 19 then
        (let s1 = (if hd s = CHR ''-'' \<or> hd s = CHR ''+'' then tl s else s) in
         if s1 = [] then (0, Some ErrSyntax)
         else (case Atoi_fast 0 s1 of
                 None \<Rightarrow> (0, Some ErrSyntax)
               | Some n \<Rightarrow> (if hd s = CHR ''-'' then - int n else int n, None)))
      else ParseInt s)"

subsection \<open>Package fmt\<close>

text \<open>\<open>fmt.Sprintf("%d", i)\<close>: the decimal digits, with a minus sign for a negative number.\<close>

fun digits :: "nat \<Rightarrow> string" where
  "digits n = (if n < 10 then [''0123456789'' ! n] else digits (n div 10) @ [''0123456789'' ! (n mod 10)])"

declare digits.simps [simp del]

definition Sprintf_d :: "int \<Rightarrow> string" where
  "Sprintf_d i = (if i < 0 then CHR ''-'' # digits (nat (- i)) else digits (nat i))"

text \<open>
  Floating-point numbers are not interpreted: \<open>strconv.ParseFloat(s, 64)\<close> (its error
  dropped, as the sources do), the conversion \<open>float64(i)\<close>, the product of two
  \<open>float64\<close> and \<open>fmt.Sprintf("%f", x)\<close> are parameters over a type \<open>'f\<close>.
\<close>

record 'f float_ops =
  ParseFloat :: "string \<Rightarrow> 'f"
  float64 :: "int \<Rightarrow> 'f"
  fmul :: "'f \<Rightarrow> 'f \<Rightarrow> 'f"
  Sprintf_f :: "'f \<Rightarrow> string"

section \<open>Data model\<close>

text \<open>
  The types \<open>Counter\<close>, \<open>Metric\<close> and \<open>MetricsByCounter\<close> are declared outside the
  two source files; the records hold the fields the sources read and write. A Go map is
  a reference: \<open>Labels\<close> and \<open>Attributes\<close> are addresses into a heap of maps, so that
  two metrics can share one map. A \<open>map[string]string\<close> is an association list with
  one entry per key (reading \<open>m[k]\<close> is \<open>map_of\<close>, writing is \<open>AList.update\<close>). The
  maps of the metrics that the collector hands over are on the heap; \<open>deref\<close> reads an
  address that is not as the empty map, as Go reads a nil map.
\<close>

type_synonym gomap = "(string \<times> string) list"
type_synonym heap = "gomap list"

definition deref :: "heap \<Rightarrow> nat \<Rightarrow> gomap" where
  "deref h r = (if r < length h then h ! r else [])"

text \<open>\<open>v, _ = m[k]\<close>: the value stored under \<open>k\<close>, the empty string without one.\<close>

definition index_or_empty :: "gomap \<Rightarrow> string \<Rightarrow> string" where
  "index_or_empty m k = (case map_of m k of None \<Rightarrow> [] | Some v \<Rightarrow> v)"

record Counter =
  FieldName :: string
  PromType :: string
  Help :: string
  AlterFieldName :: string
  AlterHelp :: string
  Multiplier :: "64 word"

record GPUInstance =
  NvmlInstanceId :: nat
  UUID :: string

record GPUInfo =
  GPUInstances :: "GPUInstance list"

record SysInfo =
  GPUCount :: nat
  GPUs :: "GPUInfo list"

record Metric =
  Counter :: Counter
  Value :: string
  AlterValue :: string
  AlterUUID :: string
  GPU :: string
  GPUUUID :: string
  GPUDevice :: string
  GPUModelName :: string
  GPUPCIBusID :: string
  UUID :: string
  MigProfile :: string
  GPUInstanceID :: string
  Hostname :: string
  Labels :: nat
  Attributes :: nat

text \<open>
  In a metric, \<open>GPU\<close> is the device index as text, \<open>GPUUUID\<close> the UUID of the device,
  \<open>UUID\<close> the name of the UUID label, \<open>AlterValue\<close> and \<open>AlterUUID\<close> the alternate
  value and the alternate identifier that enrichment derives.

  \<open>MetricsByCounter\<close> is a Go map from counters to slices of metrics. It is the list of
  its entries, in the order in which the loop at hand visits them, one entry per counter.
\<close>

type_synonym MetricsByCounter = "(Counter \<times> Metric list) list"

text \<open>
  The attribute names \<open>HpcJobAttribute\<close> and \<open>HpcUserAttribute\<close> are declared outside
  the two source files; their values are the label names of the documentation that comes
  with \<open>hpc.go\<close> (\<open>jobid="51234567",userid="123456"\<close>).
\<close>

definition HpcJobAttribute :: string where
  "HpcJobAttribute = ''jobid''"

definition HpcUserAttribute :: string where
  "HpcUserAttribute = ''userid''"

section \<open>The enrichment stage (hpc.go)\<close>

text \<open>
  A call ends in one of three ways: it returns, \<open>logrus.Fatalf\<close> ends the process, or
  an index out of range panics.
\<close>

datatype fatal = GPUIdNotInteger | GPUIdTooBig | InstanceIdNotInteger

datatype 'a outcome = Ok 'a | Fatal fatal | Panic

subsection \<open>FindMIGUUID\<close>

text \<open>
  Lines 151 to 173 (and again lines 279 to 301). The devices of \<open>sysInfo\<close> are a list
  here; reading it at an index past its end is the panic of Go.
\<close>

definition FindMIGUUID :: "SysInfo \<Rightarrow> string \<Rightarrow> string \<Rightarrow> string outcome" where
  "FindMIGUUID sysInfo gpu instanceId =
     (if snd (ParseUint gpu 32) \<noteq> None then Fatal GPUIdNotInteger
      else (let gpuid = fst (ParseUint gpu 32) in
        if GPUCount sysInfo \<le> gpuid then Fatal GPUIdTooBig
        else if snd (ParseUint instanceId 32) \<noteq> None then Fatal InstanceIdNotInteger
        else (let migid = fst (ParseUint instanceId 32) in
          if length (GPUs sysInfo) \<le> gpuid then Panic
          else (case find (\<lambda>i. NvmlInstanceId i = migid) (GPUInstances (GPUs sysInfo ! gpuid)) of
                  Some i \<Rightarrow> Ok (GPUInstance.UUID i)
                | None \<Rightarrow> Ok []))))"

subsection \<open>The job-mapping directory\<close>

text \<open>
  The file system as the sources see it: \<open>os.Stat\<close> fails or not, \<open>os.ReadDir\<close> fails or
  lists the entries, each with its name and what \<open>Info()\<close> says of it (an error, a
  directory or not), and opening and scanning a file fails at \<open>os.Open\<close> or gives the
  lines the scanner found and the error of \<open>scanner.Err()\<close>, if any.
\<close>

datatype error = OSError string | UnexpectedGroup

record DirEntry =
  Name :: string
  Info :: "error + bool"

record filesystem =
  os_Stat :: "string \<Rightarrow> error option"
  os_ReadDir :: "string \<Rightarrow> error + DirEntry list"
  os_Open :: "string \<Rightarrow> error + string list \<times> error option"
  os_ReadFile :: "string \<Rightarrow> error + string"
  path_Join :: "string \<Rightarrow> string \<Rightarrow> string"

definition readFile :: "filesystem \<Rightarrow> string \<Rightarrow> error + string list" where
  "readFile fs path =
     (case os_Open fs path of
        Inl err \<Rightarrow> Inl err
      | Inr (jobs, scanErr) \<Rightarrow> (case scanErr of Some err \<Rightarrow> Inl err | None \<Rightarrow> Inr jobs))"

fun mappingFiles :: "DirEntry list \<Rightarrow> string list" where
  "mappingFiles [] = []"
| "mappingFiles (file # files) =
     (case Info file of
        Inl err \<Rightarrow> mappingFiles files
      | Inr isDir \<Rightarrow> (if isDir then mappingFiles files else Name file # mappingFiles files))"

definition getGPUFiles :: "filesystem \<Rightarrow> string \<Rightarrow> error + string list" where
  "getGPUFiles fs dirPath =
     (case os_ReadDir fs dirPath of
        Inl err \<Rightarrow> Inl err
      | Inr files \<Rightarrow> Inr (mappingFiles files))"

text \<open>The loop of \<open>Process\<close> that fills \<open>gpuToJobMap\<close> (lines 70 to 80).\<close>

fun loadJobs :: "filesystem \<Rightarrow> string \<Rightarrow> (string \<rightharpoonup> string list) \<Rightarrow> string list
    \<Rightarrow> error + (string \<rightharpoonup> string list)" where
  "loadJobs fs dir gpuToJobMap [] = Inr gpuToJobMap"
| "loadJobs fs dir gpuToJobMap (gpuFileName # gpuFiles) =
     (case readFile fs (path_Join fs dir gpuFileName) of
        Inl err \<Rightarrow> Inl err
      | Inr jobs \<Rightarrow>
          loadJobs fs dir
            (gpuToJobMap(gpuFileName \<mapsto>
               (case gpuToJobMap gpuFileName of None \<Rightarrow> [] | Some old \<Rightarrow> old) @ jobs))
            gpuFiles)"

subsection \<open>Scaling\<close>

text \<open>
  The alternate value, as lines 90 to 100 of \<open>hpcMapper.Process\<close> and lines 319 to 331
  of \<open>PUSlurmMapper.Process\<close> compute it. The error of \<open>Atoi\<close> is dropped; the product of
  two \<open>int\<close> wraps around.
\<close>

definition scaleValue :: "'f float_ops \<Rightarrow> Metric \<Rightarrow> string" where
  "scaleValue fl metric =
     (if Multiplier (Counter metric) \<noteq> 1 then
        (if strings_Contains (Value metric) ''.'' then
           (let newval = ParseFloat fl (Value metric)
            in Sprintf_f fl (fmul fl newval (float64 fl (sint (Multiplier (Counter metric))))))
         else
           (let newval = (word_of_int (fst (Atoi (Value metric))) :: 64 word)
            in Sprintf_d (sint (newval * Multiplier (Counter metric)))))
      else Value metric)"

subsection \<open>Fan-out\<close>

text \<open>
  Modelled from the spec: \<open>utils.DeepCopy\<close> is declared outside the two source files.
  The spec calls it "a value-copy, not a shared reference" that can fail: the copy has
  maps of its own, at two new addresses, holding the entries of the original's maps.
  Whether a metric can be copied is the parameter \<open>dc\<close>.
\<close>

definition DeepCopy :: "(Metric \<Rightarrow> bool) \<Rightarrow> heap \<Rightarrow> Metric \<Rightarrow> (Metric \<times> heap) option" where
  "DeepCopy dc h metric =
     (if dc metric then
        Some (metric\<lparr>Labels := length h, Attributes := Suc (length h)\<rparr>,
              h @ [deref h (Labels metric), deref h (Attributes metric)])
      else None)"

text \<open>
  \<open>metric.Attributes[k] = v\<close>. The sources of \<open>hpc.go\<close> only write to the map of a copy
  that \<open>DeepCopy\<close> has just made, whose address is on the heap.
\<close>

definition setAttribute :: "heap \<Rightarrow> Metric \<Rightarrow> string \<Rightarrow> string \<Rightarrow> heap" where
  "setAttribute h metric k v = h[Attributes metric := AList.update k v (deref h (Attributes metric))]"

text \<open>One round of the loop over the jobs of a metric (lines 121 to 140).\<close>

definition attachJob :: "(Metric \<Rightarrow> bool) \<Rightarrow> Metric \<Rightarrow> heap \<times> Metric list \<Rightarrow> string
    \<Rightarrow> heap \<times> Metric list" where
  "attachJob dc metric st job =
     (case DeepCopy dc (fst st) metric of
        None \<Rightarrow> st
      | Some (modifiedMetric, h1) \<Rightarrow>
          (if strings_Contains job '' '' then
             (let job_user = strings_Split job CHR '' '' in
              if length job_user \<noteq> 2 then (h1, snd st)
              else (setAttribute (setAttribute h1 modifiedMetric HpcJobAttribute (job_user ! 0))
                      modifiedMetric HpcUserAttribute (job_user ! 1),
                    snd st @ [modifiedMetric]))
           else (setAttribute h1 modifiedMetric HpcJobAttribute job, snd st @ [modifiedMetric])))"

definition attachJobs :: "(Metric \<Rightarrow> bool) \<Rightarrow> Metric \<Rightarrow> heap \<times> Metric list \<Rightarrow> string list
    \<Rightarrow> heap \<times> Metric list" where
  "attachJobs dc metric st jobs = foldl (attachJob dc metric) st jobs"

subsection \<open>Process\<close>

text \<open>The device key (lines 102 to 107).\<close>

definition gpuID_of :: "Metric \<Rightarrow> string" where
  "gpuID_of metric =
     (if MigProfile metric \<noteq> [] then GPU metric @ ''.'' @ GPUInstanceID metric else GPU metric)"

text \<open>The memoised identity of the device (lines 109 to 115).\<close>

definition populateUUID :: "SysInfo \<Rightarrow> (string \<rightharpoonup> string) \<Rightarrow> Metric
    \<Rightarrow> (string \<rightharpoonup> string) outcome" where
  "populateUUID sysInfo gpuUUIDs metric =
     (if gpuUUIDs (gpuID_of metric) = None then
        (if MigProfile metric \<noteq> [] then
           (case FindMIGUUID sysInfo (GPU metric) (GPUInstanceID metric) of
              Ok u \<Rightarrow> Ok (gpuUUIDs(gpuID_of metric \<mapsto> u))
            | Fatal f \<Rightarrow> Fatal f
            | Panic \<Rightarrow> Panic)
         else Ok (gpuUUIDs(gpuID_of metric \<mapsto> GPUUUID metric)))
      else Ok gpuUUIDs)"

text \<open>\<open>m[k]\<close> for a local \<open>map[string]string\<close>: the empty string for a key that is not there.\<close>

definition mapIndex :: "(string \<rightharpoonup> string) \<Rightarrow> string \<Rightarrow> string" where
  "mapIndex m k = (case m k of None \<Rightarrow> [] | Some v \<Rightarrow> v)"

text \<open>The job list of a device (lines 117 to 119): under its UUID, else under its key.\<close>

definition lookupJobs :: "(string \<rightharpoonup> string list) \<Rightarrow> string \<Rightarrow> string \<Rightarrow> string list option" where
  "lookupJobs gpuToJobMap uuid gpuID =
     (case gpuToJobMap uuid of Some jobs \<Rightarrow> Some jobs | None \<Rightarrow> gpuToJobMap gpuID)"

text \<open>
  The loop's copy of the metric after lines 90 to 116 of \<open>hpcMapper.Process\<close>: with its
  alternate value and, from the UUID cache, its alternate identifier.
\<close>

definition enrich :: "'f float_ops \<Rightarrow> (string \<rightharpoonup> string) \<Rightarrow> Metric \<Rightarrow> Metric" where
  "enrich fl uuids metric =
     metric\<lparr>AlterValue := scaleValue fl metric, AlterUUID := mapIndex uuids (gpuID_of metric)\<rparr>"

text \<open>
  The body of the loop over the metrics of one counter (lines 86 to 144). The state is
  the UUID cache, the heap and the slice \<open>modifiedMetrics\<close>; \<open>metric\<close> is the loop's
  copy of the element, which shares the element's maps.
\<close>

definition processMetric :: "'f float_ops \<Rightarrow> (Metric \<Rightarrow> bool) \<Rightarrow> SysInfo \<Rightarrow> (string \<rightharpoonup> string list)
    \<Rightarrow> (string \<rightharpoonup> string) \<times> heap \<times> Metric list \<Rightarrow> Metric
    \<Rightarrow> ((string \<rightharpoonup> string) \<times> heap \<times> Metric list) outcome" where
  "processMetric fl dc sysInfo gpuToJobMap st metric0 =
     (let metric1 = metric0\<lparr>AlterValue := scaleValue fl metric0\<rparr>;
          gpuID = gpuID_of metric1
      in case populateUUID sysInfo (fst st) metric1 of
           Fatal f \<Rightarrow> Fatal f
         | Panic \<Rightarrow> Panic
         | Ok gpuUUIDs \<Rightarrow>
            (let metric = metric1\<lparr>AlterUUID := mapIndex gpuUUIDs gpuID\<rparr>;
                 found = lookupJobs gpuToJobMap (mapIndex gpuUUIDs gpuID) gpuID
             in case found of
                  None \<Rightarrow> Ok (gpuUUIDs, fst (snd st), snd (snd st) @ [metric])
                | Some jobs \<Rightarrow>
                    (if jobs \<noteq> [] then
                       (let r = attachJobs dc metric (snd st) jobs in Ok (gpuUUIDs, fst r, snd r))
                     else Ok (gpuUUIDs, fst (snd st), snd (snd st) @ [metric]))))"

fun processMetrics :: "'f float_ops \<Rightarrow> (Metric \<Rightarrow> bool) \<Rightarrow> SysInfo \<Rightarrow> (string \<rightharpoonup> string list)
    \<Rightarrow> (string \<rightharpoonup> string) \<times> heap \<times> Metric list \<Rightarrow> Metric list
    \<Rightarrow> ((string \<rightharpoonup> string) \<times> heap \<times> Metric list) outcome" where
  "processMetrics fl dc sysInfo gpuToJobMap st [] = Ok st"
| "processMetrics fl dc sysInfo gpuToJobMap st (metric # metrics) =
     (case processMetric fl dc sysInfo gpuToJobMap st metric of
        Ok st' \<Rightarrow> processMetrics fl dc sysInfo gpuToJobMap st' metrics
      | Fatal f \<Rightarrow> Fatal f
      | Panic \<Rightarrow> Panic)"

text \<open>
  The loop over the counters (lines 84 to 146): each counter's slice is replaced by its
  \<open>modifiedMetrics\<close>; the UUID cache and the heap go from one counter to the next.
\<close>

fun processCounters :: "'f float_ops \<Rightarrow> (Metric \<Rightarrow> bool) \<Rightarrow> SysInfo \<Rightarrow> (string \<rightharpoonup> string list)
    \<Rightarrow> (string \<rightharpoonup> string) \<times> heap \<Rightarrow> MetricsByCounter
    \<Rightarrow> (MetricsByCounter \<times> heap) outcome" where
  "processCounters fl dc sysInfo gpuToJobMap st [] = Ok ([], snd st)"
| "processCounters fl dc sysInfo gpuToJobMap st ((counter, ms) # rest) =
     (case processMetrics fl dc sysInfo gpuToJobMap (fst st, snd st, []) ms of
        Fatal f \<Rightarrow> Fatal f
      | Panic \<Rightarrow> Panic
      | Ok st' \<Rightarrow>
          (case processCounters fl dc sysInfo gpuToJobMap (fst st', fst (snd st')) rest of
             Fatal f \<Rightarrow> Fatal f
           | Panic \<Rightarrow> Panic
           | Ok r \<Rightarrow> Ok ((counter, snd (snd st')) # fst r, snd r)))"

text \<open>
  \<open>hpcMapper.Process\<close>. The result is the error returned (\<open>None\<close> for \<open>nil\<close>) with the
  metrics and the heap as the call leaves them. \<open>dir\<close> is \<open>Config.HPCJobMappingDir\<close>.
\<close>

definition Process :: "'f float_ops \<Rightarrow> filesystem \<Rightarrow> (Metric \<Rightarrow> bool) \<Rightarrow> string \<Rightarrow> SysInfo
    \<Rightarrow> MetricsByCounter \<times> heap \<Rightarrow> (error option \<times> MetricsByCounter \<times> heap) outcome" where
  "Process fl fs dc dir sysInfo st =
     (case os_Stat fs dir of
        Some err \<Rightarrow> Ok (None, st)
      | None \<Rightarrow>
          (case getGPUFiles fs dir of
             Inl err \<Rightarrow> Ok (Some err, st)
           | Inr gpuFiles \<Rightarrow>
               (case loadJobs fs dir Map.empty gpuFiles of
                  Inl err \<Rightarrow> Ok (Some err, st)
                | Inr gpuToJobMap \<Rightarrow>
                    (case processCounters fl dc sysInfo gpuToJobMap (Map.empty, snd st) (fst st) of
                       Fatal f \<Rightarrow> Fatal f
                     | Panic \<Rightarrow> Panic
                     | Ok r \<Rightarrow> Ok (None, r)))))"

subsection \<open>The legacy mapper (PUSlurmMapper)\<close>

text \<open>
  \<open>CollectJobInfo\<close> (lines 406 to 424): the job and the user of the file
  \<open>/run/gpustat/<gpu>\<close>; the directory it is given is not used. The call
  \<open>fmt.Sscanf(content, "%s %s", ...)\<close> is the parameter \<open>scan\<close>, which gives the two
  words when the scan reads two values without an error.
\<close>

definition stateDir :: string where
  "stateDir = ''/run/gpustat''"

definition CollectJobInfo :: "filesystem \<Rightarrow> (string \<Rightarrow> (string \<times> string) option) \<Rightarrow> string \<Rightarrow> string
    \<Rightarrow> string \<times> string" where
  "CollectJobInfo fs scan dir gpu =
     (let slurmInfo = ''/run/gpustat/'' @ gpu in
      case os_Stat fs slurmInfo of
        Some err \<Rightarrow> ([], [])
      | None \<Rightarrow>
          (case os_ReadFile fs slurmInfo of
             Inl err \<Rightarrow> ([], [])
           | Inr content \<Rightarrow>
               (case scan content of Some (jobId, jobUid) \<Rightarrow> (jobId, jobUid) | None \<Rightarrow> ([], []))))"

record pu_state =
  jobIds :: "string \<rightharpoonup> string"
  userIds :: "string \<rightharpoonup> string"
  gpuUUIDs :: "string \<rightharpoonup> string"
  pu_heap :: heap

text \<open>
  The body of the inner loop of \<open>PUSlurmMapper.Process\<close> (lines 313 to 362); the result
  is the new \<open>metrics[i][j]\<close>. The metric is changed in place: the attributes go to the
  map the metric has, and writing to a nil map panics.
\<close>

definition PUSlurm_metric :: "'f float_ops \<Rightarrow> filesystem \<Rightarrow> (string \<Rightarrow> (string \<times> string) option)
    \<Rightarrow> SysInfo \<Rightarrow> pu_state \<Rightarrow> Metric \<Rightarrow> (pu_state \<times> Metric) outcome" where
  "PUSlurm_metric fl fs scan sysInfo st val =
     (let m1 = val\<lparr>AlterValue := scaleValue fl val\<rparr>;
          gpuID = gpuID_of val
      in case populateUUID sysInfo (gpuUUIDs st) val of
           Fatal f \<Rightarrow> Fatal f
         | Panic \<Rightarrow> Panic
         | Ok uuids \<Rightarrow>
            (let m2 = m1\<lparr>AlterUUID := mapIndex uuids gpuID\<rparr>;
                 info = (case jobIds st gpuID of
                           Some j \<Rightarrow> (j, mapIndex (userIds st) gpuID)
                         | None \<Rightarrow> CollectJobInfo fs scan stateDir (mapIndex uuids gpuID));
                 st1 = (case jobIds st gpuID of
                          Some j \<Rightarrow> st\<lparr>gpuUUIDs := uuids\<rparr>
                        | None \<Rightarrow> st\<lparr>gpuUUIDs := uuids,
                                    jobIds := (jobIds st)(gpuID \<mapsto> fst info),
                                    userIds := (userIds st)(gpuID \<mapsto> snd info)\<rparr>)
             in if fst info \<noteq> [] \<and> snd info \<noteq> [] then
                  (if Attributes m2 < length (pu_heap st1) then
                     Ok (st1\<lparr>pu_heap :=
                               setAttribute (setAttribute (pu_heap st1) m2 ''jobid'' (fst info))
                                 m2 ''userid'' (snd info)\<rparr>, m2)
                   else Panic)
                else Ok (st1, m2)))"

fun PUSlurm_metrics :: "'f float_ops \<Rightarrow> filesystem \<Rightarrow> (string \<Rightarrow> (string \<times> string) option)
    \<Rightarrow> SysInfo \<Rightarrow> pu_state \<Rightarrow> Metric list \<Rightarrow> (pu_state \<times> Metric list) outcome" where
  "PUSlurm_metrics fl fs scan sysInfo st [] = Ok (st, [])"
| "PUSlurm_metrics fl fs scan sysInfo st (val # device) =
     (case PUSlurm_metric fl fs scan sysInfo st val of
        Fatal f \<Rightarrow> Fatal f
      | Panic \<Rightarrow> Panic
      | Ok r \<Rightarrow>
          (case PUSlurm_metrics fl fs scan sysInfo (fst r) device of
             Fatal f \<Rightarrow> Fatal f
           | Panic \<Rightarrow> Panic
           | Ok r2 \<Rightarrow> Ok (fst r2, snd r # snd r2)))"

fun PUSlurm_counters :: "'f float_ops \<Rightarrow> filesystem \<Rightarrow> (string \<Rightarrow> (string \<times> string) option)
    \<Rightarrow> SysInfo \<Rightarrow> pu_state \<Rightarrow> MetricsByCounter \<Rightarrow> (pu_state \<times> MetricsByCounter) outcome" where
  "PUSlurm_counters fl fs scan sysInfo st [] = Ok (st, [])"
| "PUSlurm_counters fl fs scan sysInfo st ((i, device) # rest) =
     (case PUSlurm_metrics fl fs scan sysInfo st device of
        Fatal f \<Rightarrow> Fatal f
      | Panic \<Rightarrow> Panic
      | Ok r \<Rightarrow>
          (case PUSlurm_counters fl fs scan sysInfo (fst r) rest of
             Fatal f \<Rightarrow> Fatal f
           | Panic \<Rightarrow> Panic
           | Ok r2 \<Rightarrow> Ok (fst r2, (i, snd r) # snd r2)))"

text \<open>\<open>PUSlurmMapper.Process\<close>: it returns \<open>nil\<close>, with the metrics and the heap it leaves.\<close>

definition PUSlurm_Process :: "'f float_ops \<Rightarrow> filesystem \<Rightarrow> (string \<Rightarrow> (string \<times> string) option)
    \<Rightarrow> SysInfo \<Rightarrow> MetricsByCounter \<times> heap \<Rightarrow> (MetricsByCounter \<times> heap) outcome" where
  "PUSlurm_Process fl fs scan sysInfo st =
     (case PUSlurm_counters fl fs scan sysInfo
             \<lparr>jobIds = Map.empty, userIds = Map.empty, gpuUUIDs = Map.empty, pu_heap = snd st\<rparr> (fst st) of
        Fatal f \<Rightarrow> Fatal f
      | Panic \<Rightarrow> Panic
      | Ok r \<Rightarrow> Ok (snd r, pu_heap (fst r)))"

section \<open>The renderer (render\_metrics.go)\<close>

text \<open>
  The templates are executed by Go's text/template. Each definition below is the text a
  template writes: \<open>{{-\<close> and \<open>-}}\<close> trim the white space next to them, a string is
  true when it is not empty, and a range over a map visits its keys in sorted order.
\<close>

definition renderPairs :: "gomap \<Rightarrow> string" where
  \<open>renderPairs m = concat (map (\<lambda>kv. '','' @ fst kv @ ''="'' @ snd kv @ ''"'') (sort_key fst m))\<close>

definition migFields :: "Metric \<Rightarrow> string" where
  \<open>migFields metric =
     (if MigProfile metric \<noteq> [] then
        '',GPU_I_PROFILE="'' @ MigProfile metric @ ''",GPU_I_ID="'' @ GPUInstanceID metric @ ''"''
      else [])\<close>

definition hostnameField :: "Metric \<Rightarrow> string" where
  \<open>hostnameField metric =
     (if Hostname metric \<noteq> [] then '',Hostname="'' @ Hostname metric @ ''"'' else [])\<close>

definition headerLines :: "string \<Rightarrow> string \<Rightarrow> string \<Rightarrow> string" where
  \<open>headerLines name help promType =
     ''# HELP '' @ name @ '' '' @ help @ ''\<newline># TYPE '' @ name @ '' '' @ promType\<close>

text \<open>The line of one metric in \<open>gpuMetricsFormat\<close> (template line 49 to 58).\<close>

definition gpuLine :: "heap \<Rightarrow> Counter \<Rightarrow> Metric \<Rightarrow> string" where
  \<open>gpuLine h counter metric =
     ''\<newline>'' @ FieldName counter @ ''{gpu="'' @ GPU metric @ ''",'' @ UUID metric @ ''="''
       @ AlterUUID metric @ ''",pci_bus_id="'' @ GPUPCIBusID metric @ ''",device="''
       @ GPUDevice metric @ ''",modelName="'' @ GPUModelName metric @ ''"''
       @ migFields metric @ hostnameField metric
       @ renderPairs (deref h (Labels metric)) @ renderPairs (deref h (Attributes metric))
       @ ''} '' @ Value metric\<close>

text \<open>The line of one metric under the alternate name (template line 64 to 73).\<close>

definition gpuAlterLine :: "heap \<Rightarrow> Counter \<Rightarrow> Metric \<Rightarrow> string" where
  \<open>gpuAlterLine h counter metric =
     ''\<newline>'' @ AlterFieldName counter @ ''{minor_number="'' @ GPU metric @ ''",uuid="''
       @ AlterUUID metric @ ''",device="'' @ GPUDevice metric @ ''",modelName="''
       @ GPUModelName metric @ ''"''
       @ migFields metric @ hostnameField metric
       @ renderPairs (deref h (Labels metric)) @ renderPairs (deref h (Attributes metric))
       @ ''} '' @ AlterValue metric\<close>

definition gpuCounterBlock :: "heap \<Rightarrow> Counter \<times> Metric list \<Rightarrow> string" where
  \<open>gpuCounterBlock h cm =
     headerLines (FieldName (fst cm)) (Help (fst cm)) (PromType (fst cm))
       @ concat (map (gpuLine h (fst cm)) (snd cm))
       @ (if AlterFieldName (fst cm) \<noteq> [] then
            ''\<newline>'' @ headerLines (AlterFieldName (fst cm)) (AlterHelp (fst cm)) (PromType (fst cm))
              @ concat (map (gpuAlterLine h (fst cm)) (snd cm))
          else [])
       @ ''\<newline>''\<close>

definition gpuMetricsFormat :: "heap \<Rightarrow> MetricsByCounter \<Rightarrow> string" where
  "gpuMetricsFormat h metrics = concat (map (gpuCounterBlock h) metrics)"

text \<open>
  The four smaller templates differ in the labels that come first; \<open>lead\<close> is the text
  between the brace and the host name.
\<close>

definition plainCounterBlock :: "heap \<Rightarrow> (Metric \<Rightarrow> string) \<Rightarrow> Counter \<times> Metric list \<Rightarrow> string" where
  \<open>plainCounterBlock h lead cm =
     headerLines (FieldName (fst cm)) (Help (fst cm)) (PromType (fst cm))
       @ concat (map (\<lambda>metric. ''\<newline>'' @ FieldName (fst cm) @ ''{'' @ lead metric
                        @ hostnameField metric @ renderPairs (deref h (Labels metric))
                        @ ''} '' @ Value metric) (snd cm))
       @ ''\<newline>''\<close>

definition switchMetricsFormat :: "heap \<Rightarrow> MetricsByCounter \<Rightarrow> string" where
  \<open>switchMetricsFormat h metrics =
     concat (map (plainCounterBlock h (\<lambda>metric. ''nvswitch="'' @ GPU metric @ ''"'')) metrics)\<close>

definition linkMetricsFormat :: "heap \<Rightarrow> MetricsByCounter \<Rightarrow> string" where
  \<open>linkMetricsFormat h metrics =
     concat (map (plainCounterBlock h
       (\<lambda>metric. ''nvlink="'' @ GPU metric @ ''",nvswitch="'' @ GPUDevice metric @ ''"'')) metrics)\<close>

definition cpuMetricsFormat :: "heap \<Rightarrow> MetricsByCounter \<Rightarrow> string" where
  \<open>cpuMetricsFormat h metrics =
     concat (map (plainCounterBlock h (\<lambda>metric. ''cpu="'' @ GPU metric @ ''"'')) metrics)\<close>

definition cpuCoreMetricsFormat :: "heap \<Rightarrow> MetricsByCounter \<Rightarrow> string" where
  \<open>cpuCoreMetricsFormat h metrics =
     concat (map (plainCounterBlock h
       (\<lambda>metric. ''cpucore="'' @ GPU metric @ ''",cpu="'' @ GPUDevice metric @ ''"'')) metrics)\<close>

subsection \<open>RenderSlurm\<close>

definition strJobId_init :: string where
  \<open>strJobId_init =
     ''# HELP nvidia_gpu_jobId JobId number of a job currently using this GPU as reported by Slurm''
       @ ''\<newline> # TYPE nvidia_gpu_jobId gauge\<newline>''\<close>

definition strUserId_init :: string where
  \<open>strUserId_init =
     ''# HELP nvidia_gpu_jobUid Uid number of user running jobs on this GPU''
       @ ''\<newline># TYPE nvidia_gpu_jobUid gauge\<newline>''\<close>

text \<open>The text \<open>props\<close> of line 188.\<close>

definition slurmProps :: "Metric \<Rightarrow> string" where
  \<open>slurmProps deviceMetric =
     ''{minor_number="'' @ GPU deviceMetric @ ''",uuid="'' @ AlterUUID deviceMetric
       @ ''",device="'' @ GPUDevice deviceMetric @ ''",modelName="'' @ GPUModelName deviceMetric
       @ ''",GPU_I_PROFILE="'' @ MigProfile deviceMetric @ ''",GPU_I_ID="''
       @ GPUInstanceID deviceMetric @ ''"''\<close>

text \<open>
  The body of the inner loop (lines 188 to 204); the state is the pair of \<open>strJobId\<close>
  and \<open>strUserId\<close>.
\<close>

definition slurmStep :: "heap \<Rightarrow> string \<times> string \<Rightarrow> Metric \<Rightarrow> string \<times> string" where
  \<open>slurmStep h st deviceMetric =
     (let props = slurmProps deviceMetric in
      if \<not> strings_Contains (fst st) props then
        (let jobid = index_or_empty (deref h (Attributes deviceMetric)) HpcJobAttribute;
             userid = index_or_empty (deref h (Attributes deviceMetric)) HpcUserAttribute
         in if jobid \<noteq> [] then
              (if userid \<noteq> [] then
                 (let props2 = props @ '',jobid="'' @ jobid @ ''"'' @ '',userid="'' @ userid @ ''"} ''
                  in (fst st @ ''nvidia_gpu_jobId'' @ props2 @ jobid @ ''\<newline>'',
                      snd st @ ''nvidia_gpu_jobUid'' @ props2 @ userid @ ''\<newline>''))
               else
                 (let props2 = props @ '',jobid="'' @ jobid @ ''"'' @ ''} ''
                  in (fst st @ ''nvidia_gpu_jobId'' @ props2 @ jobid @ ''\<newline>'', snd st)))
            else st)
      else st)\<close>

text \<open>
  \<open>RenderSlurm\<close>: the text written to \<open>w\<close>, a buffer whose writes do not fail.
  \<open>metrics\<close> is the list of the entries of the map in the order in which the range
  loop of line 186 visits them; Go does not fix that order.
\<close>

definition RenderSlurm :: "heap \<Rightarrow> MetricsByCounter \<Rightarrow> string" where
  "RenderSlurm h metrics =
     (let st = foldl (slurmStep h) (strJobId_init, strUserId_init) (concat (map snd metrics))
      in fst st @ snd st)"

subsection \<open>RenderGroup\<close>

text \<open>
  The entity groups of package dcgm; \<open>FE_OTHER\<close> stands for the groups that
  \<open>RenderGroup\<close> has no template for. The result is the error with the text written.
  The map of the metrics is given as the list of its entries, twice: \<open>metrics\<close> has the
  entries in the sorted order of their keys, in which the template visits them, and
  \<open>ranged\<close> has the same entries in the order in which the range loop of
  \<open>RenderSlurm\<close> visits them. A map of one entry has one order.
\<close>

datatype Field_Entity_Group = FE_GPU | FE_SWITCH | FE_LINK | FE_CPU | FE_CPU_CORE | FE_OTHER

definition RenderGroup :: "heap \<Rightarrow> Field_Entity_Group \<Rightarrow> MetricsByCounter \<Rightarrow> MetricsByCounter
    \<Rightarrow> error option \<times> string" where
  "RenderGroup h grp metrics ranged =
     (case grp of
        FE_GPU \<Rightarrow> (None, gpuMetricsFormat h metrics @ RenderSlurm h ranged)
      | FE_SWITCH \<Rightarrow> (None, switchMetricsFormat h metrics)
      | FE_LINK \<Rightarrow> (None, linkMetricsFormat h metrics)
      | FE_CPU \<Rightarrow> (None, cpuMetricsFormat h metrics)
      | FE_CPU_CORE \<Rightarrow> (None, cpuCoreMetricsFormat h metrics)
      | FE_OTHER \<Rightarrow> (Some UnexpectedGroup, []))"

section \<open>The vocabulary of the specification\<close>

text \<open>
  A job record is a bare job id or a job id with a user id; on its line of the mapping
  file the two are separated by one space. \<open>recordAttrs\<close> adds the attributes of a
  record to a map.
\<close>

datatype jobRecord = JobOnly string | JobUser string string

fun recordLine :: "jobRecord \<Rightarrow> string" where
  "recordLine (JobOnly j) = j"
| "recordLine (JobUser j u) = j @ '' '' @ u"

fun recordTokens :: "jobRecord \<Rightarrow> string list" where
  "recordTokens (JobOnly j) = [j]"
| "recordTokens (JobUser j u) = [j, u]"

fun recordAttrs :: "jobRecord \<Rightarrow> gomap \<Rightarrow> gomap" where
  "recordAttrs (JobOnly j) m = AList.update HpcJobAttribute j m"
| "recordAttrs (JobUser j u) m = AList.update HpcUserAttribute u (AList.update HpcJobAttribute j m)"

fun wellFormed :: "jobRecord \<Rightarrow> bool" where
  "wellFormed (JobOnly j) = (CHR '' '' \<notin> set j)"
| "wellFormed (JobUser j u) = (CHR '' '' \<notin> set j \<and> CHR '' '' \<notin> set u)"

text \<open>
  The copies of a metric that a fan-out over \<open>k\<close> records makes when the heap has \<open>a\<close>
  maps, and the maps that it adds to the heap for the records.
\<close>

fun copies :: "Metric \<Rightarrow> nat \<Rightarrow> nat \<Rightarrow> Metric list" where
  "copies m a 0 = []"
| "copies m a (Suc k) = m\<lparr>Labels := a, Attributes := Suc a\<rparr> # copies m (a + 2) k"

fun cells :: "gomap \<Rightarrow> gomap \<Rightarrow> jobRecord list \<Rightarrow> heap" where
  "cells L A [] = []"
| "cells L A (r # rs) = L # recordAttrs r A # cells L A rs"

text \<open>
  The tokens of a line as the specification takes them, separated by white space (a
  space, a tab, a line feed, a vertical tab, a form feed or a carriage return).
\<close>

definition isSpace :: "char \<Rightarrow> bool" where
  "isSpace c = (c \<in> {CHR '' '', CHR 0x09, CHR 0x0A, CHR 0x0B, CHR 0x0C, CHR 0x0D})"

fun fields_acc :: "string \<Rightarrow> string \<Rightarrow> string list" where
  "fields_acc w [] = (if w = [] then [] else [w])"
| "fields_acc w (c # s) =
     (if isSpace c then (if w = [] then fields_acc [] s else w # fields_acc [] s)
      else fields_acc (w @ [c]) s)"

definition fields :: "string \<Rightarrow> string list" where
  "fields s = fields_acc [] s"

text \<open>The text that the specification expects of the round trip of one sample.\<close>

definition roundtrip_text :: "string \<Rightarrow> string" where
  \<open>roundtrip_text help =
     ''# HELP X '' @ help @ ''\<newline># TYPE X gauge\<newline>''
       @ ''X{gpu="0",UUID="GPU-abc",pci_bus_id="",device="",modelName=""} 139''\<close>

section \<open>Example inputs\<close>

definition ex_float :: "int float_ops" where
  "ex_float = \<lparr>ParseFloat = (\<lambda>s. 0), float64 = (\<lambda>i. i), fmul = (\<lambda>a b. a * b),
     Sprintf_f = (\<lambda>x. ''0.000000'')\<rparr>"

definition ex_counter :: Counter where
  "ex_counter = \<lparr>FieldName = ''X'', PromType = ''gauge'', Help = ''help'', AlterFieldName = [],
     AlterHelp = [], Multiplier = 1\<rparr>"

text \<open>A sample of a standalone device as the collector hands it over, not yet enriched.\<close>

definition ex_metric :: Metric where
  "ex_metric = \<lparr>Counter = ex_counter, Value = ''139'', AlterValue = [], AlterUUID = [],
     GPU = ''0'', GPUUUID = ''GPU-abc'', GPUDevice = [], GPUModelName = [], GPUPCIBusID = [],
     UUID = ''UUID'', MigProfile = [], GPUInstanceID = [], Hostname = [], Labels = 0,
     Attributes = 1\<rparr>"

text \<open>
  A sample of a counter that turns megabytes into bytes, a sample whose value is one more
  than the largest \<open>int\<close>, and one whose value overflows before a letter.
\<close>

definition ex_scaled :: Metric where
  "ex_scaled = ex_metric\<lparr>Counter := ex_counter\<lparr>Multiplier := 1048576\<rparr>\<rparr>"

definition ex_overflow :: Metric where
  "ex_overflow = ex_metric\<lparr>Counter := ex_counter\<lparr>Multiplier := 2\<rparr>, Value := ''9223372036854775808''\<rparr>"

definition ex_overflow_letter :: Metric where
  "ex_overflow_letter =
     ex_metric\<lparr>Counter := ex_counter\<lparr>Multiplier := 2\<rparr>, Value := ''99999999999999999999x''\<rparr>"

definition ex_not_a_number :: Metric where
  "ex_not_a_number = ex_metric\<lparr>Counter := ex_counter\<lparr>Multiplier := 2\<rparr>, Value := ''N/A''\<rparr>"

text \<open>
  Samples of a partitioned device: one of a device index past the device count, one whose
  instance id is no number.
\<close>

definition ex_mig_out_of_range :: Metric where
  "ex_mig_out_of_range = ex_metric\<lparr>GPU := ''5'', MigProfile := ''1g.10gb'', GPUInstanceID := ''7''\<rparr>"

definition ex_mig_bad_instance :: Metric where
  "ex_mig_bad_instance = ex_metric\<lparr>MigProfile := ''1g.10gb'', GPUInstanceID := ''x''\<rparr>"

definition ex_heap :: heap where
  "ex_heap = [[], []]"

text \<open>The sample after enrichment with no job record, and the two copies of its fan-out.\<close>

definition ex_enriched :: Metric where
  "ex_enriched = ex_metric\<lparr>AlterValue := ''139'', AlterUUID := ''GPU-abc''\<rparr>"

definition ex_two_jobs :: "MetricsByCounter \<times> heap" where
  "ex_two_jobs =
     ([(ex_counter, [ex_enriched\<lparr>Labels := 2, Attributes := 3\<rparr>, ex_enriched\<lparr>Labels := 4, Attributes := 5\<rparr>])],
      [[], [], [], [(''jobid'', ''100''), (''userid'', ''200'')], [], [(''jobid'', ''300'')]])"

definition ex_sysInfo :: SysInfo where
  "ex_sysInfo = \<lparr>GPUCount = 1, GPUs = [\<lparr>GPUInstances = []\<rparr>]\<rparr>"

text \<open>A mapping directory with the one file \<open>0\<close> that holds the given lines.\<close>

definition dir_with :: "string list \<Rightarrow> filesystem" where
  "dir_with jobs = \<lparr>os_Stat = (\<lambda>p. None),
     os_ReadDir = (\<lambda>p. Inr [\<lparr>Name = ''0'', Info = Inr False\<rparr>]),
     os_Open = (\<lambda>p. Inr (jobs, None)),
     os_ReadFile = (\<lambda>p. Inl (OSError ''ENOENT'')),
     path_Join = (\<lambda>d n. d @ ''/'' @ n)\<rparr>"

text \<open>
  A mapping directory with no file, one that is not there, one whose file cannot be read
  and one that cannot be listed.
\<close>

definition empty_dir :: filesystem where
  "empty_dir = (dir_with [])\<lparr>os_ReadDir := (\<lambda>p. Inr [])\<rparr>"

definition absent_dir :: filesystem where
  "absent_dir = (dir_with [])\<lparr>os_Stat := (\<lambda>p. Some (OSError ''ENOENT''))\<rparr>"

definition unreadable_file :: filesystem where
  "unreadable_file = (dir_with [])\<lparr>os_Open := (\<lambda>p. Inl (OSError ''EIO''))\<rparr>"


section \<open>Lemmas about the library functions\<close>

lemma strings_Contains_single: "strings_Contains s [c] = (c \<in> set s)"
  by (induction s) auto

lemma digit_char: "n < 10 \<Longrightarrow> isDigit (''0123456789'' ! n) \<and> digitVal (''0123456789'' ! n) = n"
proof -
  assume "n < 10"
  then have "n \<in> {0, 1, 2, 3, 4, 5, 6, 7, 8, 9}" by auto
  then show ?thesis by (auto simp: isDigit_def digitVal_def)
qed

lemma digit_char_mem: "n < 10 \<Longrightarrow> ''0123456789'' ! n \<in> set ''0123456789''"
  by (rule nth_mem) simp

lemma digits_chars: "set (digits n) \<subseteq> set ''0123456789''"
proof (induction n rule: digits.induct)
  case (1 n)
  show ?case
  proof (cases "n < 10")
    case True
    then show ?thesis using digit_char_mem [of n] by (subst digits.simps) simp
  next
    case False
    then show ?thesis using 1 digit_char_mem [of "n mod 10"] by (subst digits.simps) simp
  qed
qed

lemma digits_not_Nil: "digits n \<noteq> []"
  by (subst digits.simps) simp

lemma Sprintf_d_no_point: "CHR ''.'' \<notin> set (Sprintf_d i)"
  using digits_chars [of "nat i"] digits_chars [of "nat (- i)"]
  by (auto simp: Sprintf_d_def)

lemma Atoi_fast_append:
  "Atoi_fast a (xs @ ys) = (case Atoi_fast a xs of None \<Rightarrow> None | Some b \<Rightarrow> Atoi_fast b ys)"
  by (induction xs arbitrary: a) auto

lemma Atoi_fast_digits: "Atoi_fast a (digits n) = Some (a * 10 ^ length (digits n) + n)"
proof (induction n arbitrary: a rule: digits.induct)
  case (1 n)
  show ?case
  proof (cases "n < 10")
    case True
    then show ?thesis using digit_char [of n] by (subst (1 2) digits.simps) simp
  next
    case False
    have d: "isDigit (''0123456789'' ! (n mod 10))" "digitVal (''0123456789'' ! (n mod 10)) = n mod 10"
      using digit_char [of "n mod 10"] by simp_all
    show ?thesis using False 1 [OF False, of a] d
      by (subst (1 2) digits.simps) (simp add: Atoi_fast_append algebra_simps)
  qed
qed

lemma ParseUint_loop_append:
  "ParseUint_loop mx a (xs @ ys) =
     (case ParseUint_loop mx a xs of (b, None) \<Rightarrow> ParseUint_loop mx b ys | (b, Some e) \<Rightarrow> (b, Some e))"
  by (induction xs arbitrary: a) (auto simp: Let_def)

lemma ParseUint_loop_digits:
  "n \<le> mx \<Longrightarrow> mx \<le> maxUint64 \<Longrightarrow> ParseUint_loop mx 0 (digits n) = (n, None)"
proof (induction n rule: digits.induct)
  case (1 n)
  show ?case
  proof (cases "n < 10")
    case True
    then show ?thesis using digit_char [of n] 1(2,3)
      by (subst digits.simps) (simp add: maxUint64_def)
  next
    case False
    have d: "isDigit (''0123456789'' ! (n mod 10))" "digitVal (''0123456789'' ! (n mod 10)) = n mod 10"
      using digit_char [of "n mod 10"] by simp_all
    have ih: "ParseUint_loop mx 0 (digits (n div 10)) = (n div 10, None)"
      using 1(1) [OF False] 1(2,3) by simp
    have small: "\<not> maxUint64 div 10 + 1 \<le> n div 10"
      using 1(2,3) by (simp add: maxUint64_def) 
    have recomb: "n div 10 * 10 + n mod 10 = n" by simp
    show ?thesis using False ih d small 1(2,3)
      by (subst digits.simps) (simp add: ParseUint_loop_append Let_def recomb)
  qed
qed

lemma hd_digits: "hd (digits n) \<noteq> CHR ''-'' \<and> hd (digits n) \<noteq> CHR ''+''"
proof -
  have "hd (digits n) \<in> set ''0123456789''"
    using digits_chars [of n] hd_in_set [OF digits_not_Nil, of n] by blast
  then show ?thesis by auto
qed

lemma ParseUint_digits_64: "n < 2 ^ 64 \<Longrightarrow> ParseUint (digits n) 64 = (n, None)"
  using ParseUint_loop_digits [of n "2 ^ 64 - 1"]
  by (simp add: ParseUint_def digits_not_Nil maxUint64_def)

lemma ParseUint_digits_32: "n < 2 ^ 32 \<Longrightarrow> ParseUint (digits n) 32 = (n, None)"
  using ParseUint_loop_digits [of n "2 ^ 32 - 1"]
  by (simp add: ParseUint_def digits_not_Nil maxUint64_def)

lemma Atoi_digits: "n < 2 ^ 63 \<Longrightarrow> Atoi (digits n) = (int n, None)"
  using hd_digits [of n] ParseUint_digits_64 [of n]
  by (simp add: Atoi_def ParseInt_def Let_def digits_not_Nil Atoi_fast_digits)

lemma Atoi_minus_digits: "n \<le> 2 ^ 63 \<Longrightarrow> Atoi (CHR ''-'' # digits n) = (- int n, None)"
  using ParseUint_digits_64 [of n]
  by (simp add: Atoi_def ParseInt_def Let_def digits_not_Nil Atoi_fast_digits)

lemma Atoi_Sprintf_d:
  assumes "- (2 ^ 63) \<le> i" and "i < 2 ^ 63"
  shows "Atoi (Sprintf_d i) = (i, None)"
proof (cases "i < 0")
  case True
  then have "nat (- i) \<le> 2 ^ 63" using assms(1) by (simp add: nat_le_iff)
  then show ?thesis using True Atoi_minus_digits [of "nat (- i)"] by (simp add: Sprintf_d_def)
next
  case False
  then have "nat i < 2 ^ 63" using assms(2) by (simp add: nat_less_iff)
  then show ?thesis using False Atoi_digits [of "nat i"] by (simp add: Sprintf_d_def)
qed

section \<open>Lemmas about the enrichment stage\<close>

lemma gpuID_of_AlterValue: "gpuID_of (m\<lparr>AlterValue := v\<rparr>) = gpuID_of m"
  by (simp add: gpuID_of_def)

lemma populateUUID_AlterValue: "populateUUID s u (m\<lparr>AlterValue := v\<rparr>) = populateUUID s u m"
  unfolding populateUUID_def gpuID_of_AlterValue by simp

text \<open>The body of the loop, with the enriched copy named.\<close>

lemma processMetric_unfold:
  "processMetric fl dc sysInfo jm st metric =
     (case populateUUID sysInfo (fst st) metric of
        Fatal f \<Rightarrow> Fatal f
      | Panic \<Rightarrow> Panic
      | Ok uu \<Rightarrow>
          (case lookupJobs jm (mapIndex uu (gpuID_of metric)) (gpuID_of metric) of
             None \<Rightarrow> Ok (uu, fst (snd st), snd (snd st) @ [enrich fl uu metric])
           | Some jobs \<Rightarrow>
               (if jobs \<noteq> [] then
                  Ok (uu, fst (attachJobs dc (enrich fl uu metric) (snd st) jobs),
                      snd (attachJobs dc (enrich fl uu metric) (snd st) jobs))
                else Ok (uu, fst (snd st), snd (snd st) @ [enrich fl uu metric]))))"
  unfolding processMetric_def Let_def gpuID_of_AlterValue populateUUID_AlterValue enrich_def
  by (rule refl)

lemma strings_Split_length: "length (strings_Split s sep) = Suc (count_list s sep)"
  by (induction s) auto

lemma strings_Split_not_Nil: "strings_Split s sep \<noteq> []"
  by (induction s) auto

lemma strings_Split_none: "sep \<notin> set s \<Longrightarrow> strings_Split s sep = [s]"
  by (induction s) auto

lemma strings_Split_pair:
  "sep \<notin> set a \<Longrightarrow> sep \<notin> set b \<Longrightarrow> strings_Split (a @ sep # b) sep = [a, b]"
  by (induction a) (auto simp: strings_Split_none)

lemma strings_Contains_space: "strings_Contains s '' '' = (CHR '' '' \<in> set s)"
  by (rule strings_Contains_single)

lemma count_list_0_iff: "count_list s c = 0 \<longleftrightarrow> c \<notin> set s"
  by (induction s) auto

lemma attachJob_eval:
  assumes "dc m"
  shows "attachJob dc m (h, out) job =
    (if CHR '' '' \<in> set job then
       (if length (strings_Split job CHR '' '') \<noteq> 2
        then (h @ [deref h (Labels m), deref h (Attributes m)], out)
        else (h @ [deref h (Labels m),
                   AList.update HpcUserAttribute (strings_Split job CHR '' '' ! 1)
                     (AList.update HpcJobAttribute (strings_Split job CHR '' '' ! 0) (deref h (Attributes m)))],
              out @ [m\<lparr>Labels := length h, Attributes := Suc (length h)\<rparr>]))
     else (h @ [deref h (Labels m), AList.update HpcJobAttribute job (deref h (Attributes m))],
           out @ [m\<lparr>Labels := length h, Attributes := Suc (length h)\<rparr>]))"
  using assms
  by (simp add: attachJob_def DeepCopy_def setAttribute_def strings_Contains_space Let_def
      deref_def nth_append list_update_append)

lemma attachJob_no_copy: "\<not> dc m \<Longrightarrow> attachJob dc m st job = st"
  by (simp add: attachJob_def DeepCopy_def)

lemma recordLine_space: "wellFormed r \<Longrightarrow> (CHR '' '' \<in> set (recordLine r)) = (\<exists>j u. r = JobUser j u)"
  by (cases r) auto

lemma attachJob_record:
  assumes "dc m" "wellFormed r"
  shows "attachJob dc m (h, out) (recordLine r) =
    (h @ [deref h (Labels m), recordAttrs r (deref h (Attributes m))],
     out @ [m\<lparr>Labels := length h, Attributes := Suc (length h)\<rparr>])"
proof (cases r)
  case (JobOnly j)
  then show ?thesis using assms by (simp add: attachJob_eval)
next
  case (JobUser j u)
  then have "strings_Split (recordLine r) CHR '' '' = [j, u]"
    using assms(2) strings_Split_pair [of "CHR '' ''" j u] by simp
  then show ?thesis using assms JobUser by (simp add: attachJob_eval)
qed

lemma deref_append: "r < length h \<Longrightarrow> deref (h @ xs) r = deref h r"
  by (simp add: deref_def nth_append)

lemma attachJobs_records:
  assumes "dc m" "\<forall>r \<in> set recs. wellFormed r" "Labels m < length h" "Attributes m < length h"
  shows "attachJobs dc m (h, out) (map recordLine recs) =
    (h @ cells (deref h (Labels m)) (deref h (Attributes m)) recs, out @ copies m (length h) (length recs))"
  using assms
proof (induction recs arbitrary: h out)
  case Nil
  then show ?case by (simp add: attachJobs_def)
next
  case (Cons r recs)
  let ?h1 = "h @ [deref h (Labels m), recordAttrs r (deref h (Attributes m))]"
  let ?o1 = "out @ [m\<lparr>Labels := length h, Attributes := Suc (length h)\<rparr>]"
  have step: "attachJob dc m (h, out) (recordLine r) = (?h1, ?o1)"
    using Cons.prems by (simp add: attachJob_record)
  have ih: "attachJobs dc m (?h1, ?o1) (map recordLine recs) =
      (?h1 @ cells (deref ?h1 (Labels m)) (deref ?h1 (Attributes m)) recs,
       ?o1 @ copies m (length ?h1) (length recs))"
    using Cons.prems by (intro Cons.IH) simp_all
  have d: "deref ?h1 (Labels m) = deref h (Labels m)" "deref ?h1 (Attributes m) = deref h (Attributes m)"
    using Cons.prems by (simp_all add: deref_append)
  have "attachJobs dc m (h, out) (map recordLine (r # recs)) =
      attachJobs dc m (?h1, ?o1) (map recordLine recs)"
    using step by (simp add: attachJobs_def)
  then show ?case using ih d by simp
qed

lemma copies_length: "length (copies m a k) = k"
  by (induction k arbitrary: a) auto

lemma copies_nth: "i < k \<Longrightarrow> copies m a k ! i = m\<lparr>Labels := a + 2 * i, Attributes := Suc (a + 2 * i)\<rparr>"
proof (induction k arbitrary: a i)
  case 0
  then show ?case by simp
next
  case (Suc k)
  show ?case
  proof (cases i)
    case 0
    then show ?thesis by simp
  next
    case (Suc j)
    then have "j < k" using Suc.prems by simp
    then show ?thesis using Suc.IH [of j "a + 2"] \<open>i = Suc j\<close> by simp
  qed
qed

lemma cells_length: "length (cells L A recs) = 2 * length recs"
  by (induction recs) auto

lemma cells_nth:
  "i < length recs \<Longrightarrow> cells L A recs ! (2 * i) = L \<and> cells L A recs ! Suc (2 * i) = recordAttrs (recs ! i) A"
proof (induction recs arbitrary: i)
  case Nil
  then show ?case by simp
next
  case (Cons r recs)
  show ?case
  proof (cases i)
    case 0
    then show ?thesis by simp
  next
    case (Suc j)
    then have "j < length recs" using Cons.prems by simp
    then show ?thesis using Cons.IH [of j] \<open>i = Suc j\<close> by simp
  qed
qed

section \<open>Errors of the job-mapping directory\<close>




section \<open>Lemmas about scaling\<close>

lemma ParseInt_syntax_zero: "snd (ParseInt s) = Some ErrSyntax \<Longrightarrow> fst (ParseInt s) = 0"
  by (auto simp: ParseInt_def Let_def split: if_splits)

lemma ParseInt_range_clamped:
  "snd (ParseInt s) = Some ErrRange \<Longrightarrow> fst (ParseInt s) = 2 ^ 63 - 1 \<or> fst (ParseInt s) = - (2 ^ 63)"
  by (auto simp: ParseInt_def Let_def split: if_splits)

lemma Atoi_slow: "\<not> (0 < length s \<and> length s < 19) \<Longrightarrow> Atoi s = ParseInt s"
  unfolding Atoi_def by (simp only: if_False)

lemma Atoi_fast_path:
  "0 < length s \<and> length s < 19 \<Longrightarrow>
   Atoi s = (0, Some ErrSyntax) \<or> (\<exists>i. Atoi s = (i, None))"
  by (simp add: Atoi_def Let_def split: option.splits)

lemma Atoi_syntax_zero: "snd (Atoi s) = Some ErrSyntax \<Longrightarrow> fst (Atoi s) = 0"
proof (cases "0 < length s \<and> length s < 19")
  case True
  then show "snd (Atoi s) = Some ErrSyntax \<Longrightarrow> fst (Atoi s) = 0"
    using Atoi_fast_path [of s] by auto
next
  case False
  then show "snd (Atoi s) = Some ErrSyntax \<Longrightarrow> fst (Atoi s) = 0"
    using ParseInt_syntax_zero [of s] by (simp add: Atoi_slow)
qed

lemma Atoi_range_clamped:
  "snd (Atoi s) = Some ErrRange \<Longrightarrow> fst (Atoi s) = 2 ^ 63 - 1 \<or> fst (Atoi s) = - (2 ^ 63)"
proof (cases "0 < length s \<and> length s < 19")
  case True
  then show "snd (Atoi s) = Some ErrRange \<Longrightarrow> fst (Atoi s) = 2 ^ 63 - 1 \<or> fst (Atoi s) = - (2 ^ 63)"
    using Atoi_fast_path [of s] by auto
next
  case False
  then show "snd (Atoi s) = Some ErrRange \<Longrightarrow> fst (Atoi s) = 2 ^ 63 - 1 \<or> fst (Atoi s) = - (2 ^ 63)"
    using ParseInt_range_clamped [of s] by (simp add: Atoi_slow)
qed

lemma Atoi_Nil: "Atoi [] = (0, Some ErrSyntax)"
  by (simp add: Atoi_def ParseInt_def)

lemma Atoi_not_number:
  "\<not> isDigit c \<Longrightarrow> c \<noteq> CHR ''-'' \<Longrightarrow> c \<noteq> CHR ''+'' \<Longrightarrow> Atoi (c # s) = (0, Some ErrSyntax)"
  by (simp add: Atoi_def ParseInt_def ParseUint_def Let_def)

lemma Atoi_fast_None: "Atoi_fast n s = None \<longleftrightarrow> (\<exists>c \<in> set s. \<not> isDigit c)"
  by (induction s arbitrary: n) auto

text \<open>
  For a value of 1 to 18 bytes, \<open>Atoi\<close> never reports a range error, and it reports a
  syntax error exactly when what follows the optional sign is empty or has a byte that is
  no digit.
\<close>

lemma Atoi_short_syntax:
  assumes "0 < length s" "length s < 19"
  shows "snd (Atoi s) = Some ErrSyntax \<longleftrightarrow>
     (let s1 = (if hd s = CHR ''-'' \<or> hd s = CHR ''+'' then tl s else s)
      in s1 = [] \<or> (\<exists>c \<in> set s1. \<not> isDigit c))"
proof -
  define s1 where "s1 = (if hd s = CHR ''-'' \<or> hd s = CHR ''+'' then tl s else s)"
  have a: "Atoi s = (if s1 = [] then (0, Some ErrSyntax)
         else (case Atoi_fast 0 s1 of
                 None \<Rightarrow> (0, Some ErrSyntax)
               | Some n \<Rightarrow> (if hd s = CHR ''-'' then - int n else int n, None)))"
    using assms unfolding Atoi_def s1_def Let_def by simp
  have "snd (Atoi s) = Some ErrSyntax \<longleftrightarrow> s1 = [] \<or> Atoi_fast 0 s1 = None"
    unfolding a by (simp split: option.splits)
  then show ?thesis unfolding s1_def [symmetric] Let_def by (simp add: Atoi_fast_None)
qed

lemma Atoi_short_no_range: "0 < length s \<Longrightarrow> length s < 19 \<Longrightarrow> snd (Atoi s) \<noteq> Some ErrRange"
  using Atoi_fast_path [of s] by auto

lemma scaleValue_syntax:
  assumes "Multiplier (Counter metric) \<noteq> 1" "\<not> strings_Contains (Value metric) ''.''"
    "snd (Atoi (Value metric)) = Some ErrSyntax"
  shows "scaleValue fl metric = ''0''"
  using assms Atoi_syntax_zero [of "Value metric"]
  by (simp add: scaleValue_def Sprintf_d_def digits.simps)

lemma ParseInt_range_sign:
  "snd (ParseInt s) = Some ErrRange \<Longrightarrow>
   fst (ParseInt s) = (if hd s = CHR ''-'' then - (2 ^ 63) else 2 ^ 63 - 1)"
  by (auto simp: ParseInt_def Let_def split: if_splits)

lemma Atoi_range_sign:
  "snd (Atoi s) = Some ErrRange \<Longrightarrow>
   fst (Atoi s) = (if hd s = CHR ''-'' then - (2 ^ 63) else 2 ^ 63 - 1)"
proof (cases "0 < length s \<and> length s < 19")
  case True
  then show "snd (Atoi s) = Some ErrRange \<Longrightarrow> ?thesis"
    using Atoi_fast_path [of s] by auto
next
  case False
  then show "snd (Atoi s) = Some ErrRange \<Longrightarrow> ?thesis"
    using ParseInt_range_sign [of s] by (simp add: Atoi_slow)
qed

lemma scaleValue_range:
  assumes "Multiplier (Counter metric) \<noteq> 1" "\<not> strings_Contains (Value metric) ''.''"
    "snd (Atoi (Value metric)) = Some ErrRange"
  shows "scaleValue fl metric
     = Sprintf_d (sint (word_of_int (if hd (Value metric) = CHR ''-'' then - (2 ^ 63) else 2 ^ 63 - 1)
                        * Multiplier (Counter metric)))"
  using assms(1,2) Atoi_range_sign [OF assms(3)] by (simp add: scaleValue_def)

section \<open>What the fan-out appends\<close>

lemma DeepCopy_fields:
  "DeepCopy dc h m = Some (x, h1) \<Longrightarrow> x\<lparr>Labels := Labels m, Attributes := Attributes m\<rparr> = m"
  by (auto simp: DeepCopy_def split: if_splits)

lemma attachJob_cases:
  "attachJob dc m st job = st
   \<or> (\<exists>h1. attachJob dc m st job = (h1, snd st))
   \<or> (\<exists>h1 x. attachJob dc m st job = (h1, snd st @ [x]) \<and> x\<lparr>Labels := Labels m, Attributes := Attributes m\<rparr> = m)"
proof (cases "DeepCopy dc (fst st) m")
  case None
  then show ?thesis by (simp add: attachJob_def)
next
  case (Some p)
  obtain x h1 where p: "p = (x, h1)" by (cases p)
  have x: "x\<lparr>Labels := Labels m, Attributes := Attributes m\<rparr> = m"
    using Some p DeepCopy_fields by blast
  show ?thesis
    unfolding attachJob_def Some p Let_def using x by simp
qed

lemma attachJob_new:
  "\<exists>new. snd (attachJob dc m st job) = snd st @ new \<and> length new \<le> 1
     \<and> (\<forall>x \<in> set new. x\<lparr>Labels := Labels m, Attributes := Attributes m\<rparr> = m)"
  using attachJob_cases [of dc m st job]
proof (elim disjE exE conjE)
  assume "attachJob dc m st job = st"
  then have "snd (attachJob dc m st job) = snd st @ []" by simp
  then show ?thesis by (intro exI [of _ "[]"]) simp
next
  fix h1 assume "attachJob dc m st job = (h1, snd st)"
  then have "snd (attachJob dc m st job) = snd st @ []" by simp
  then show ?thesis by (intro exI [of _ "[]"]) simp
next
  fix h1 x assume "attachJob dc m st job = (h1, snd st @ [x])"
    and "x\<lparr>Labels := Labels m, Attributes := Attributes m\<rparr> = m"
  then show ?thesis by (intro exI [of _ "[x]"]) simp
qed

lemma attachJobs_new:
  "\<exists>new. snd (attachJobs dc m st jobs) = snd st @ new \<and> length new \<le> length jobs
     \<and> (\<forall>x \<in> set new. x\<lparr>Labels := Labels m, Attributes := Attributes m\<rparr> = m)"
proof (induction jobs arbitrary: st)
  case Nil
  then show ?case by (simp add: attachJobs_def)
next
  case (Cons job jobs)
  obtain n1 where n1: "snd (attachJob dc m st job) = snd st @ n1" "length n1 \<le> 1"
    "\<forall>x \<in> set n1. x\<lparr>Labels := Labels m, Attributes := Attributes m\<rparr> = m"
    using attachJob_new [of dc m st job] by blast
  obtain n2 where n2: "snd (attachJobs dc m (attachJob dc m st job) jobs) = snd (attachJob dc m st job) @ n2"
    "length n2 \<le> length jobs"
    "\<forall>x \<in> set n2. x\<lparr>Labels := Labels m, Attributes := Attributes m\<rparr> = m"
    using Cons [of "attachJob dc m st job"] by blast
  have "snd (attachJobs dc m st (job # jobs)) = snd st @ (n1 @ n2)"
    using n1(1) n2(1) by (simp add: attachJobs_def)
  moreover have "\<forall>x \<in> set (n1 @ n2). x\<lparr>Labels := Labels m, Attributes := Attributes m\<rparr> = m"
    using n1(3) n2(3) by auto
  moreover have "length (n1 @ n2) \<le> length (job # jobs)" using n1(2) n2(2) by simp
  ultimately show ?case by blast
qed

lemma processMetric_outputs:
  assumes "processMetric fl dc sysInfo jm st metric = Ok st'"
  shows "\<exists>new. populateUUID sysInfo (fst st) metric = Ok (fst st')
     \<and> snd (snd st') = snd (snd st) @ new
     \<and> (\<forall>x \<in> set new. x\<lparr>Labels := Labels metric, Attributes := Attributes metric\<rparr> = enrich fl (fst st') metric)"
proof (cases "populateUUID sysInfo (fst st) metric")
  case (Ok uu)
  let ?m = "enrich fl uu metric"
  have la: "Labels ?m = Labels metric" "Attributes ?m = Attributes metric"
    by (simp_all add: enrich_def)
  show ?thesis
  proof (cases "lookupJobs jm (mapIndex uu (gpuID_of metric)) (gpuID_of metric)")
    case None
    then have "st' = (uu, fst (snd st), snd (snd st) @ [?m])"
      using assms Ok by (simp add: processMetric_unfold)
    then show ?thesis using Ok la by (intro exI [of _ "[?m]"]) simp
  next
    case (Some jobs)
    show ?thesis
    proof (cases "jobs = []")
      case True
      then have "st' = (uu, fst (snd st), snd (snd st) @ [?m])"
        using assms Ok Some by (simp add: processMetric_unfold)
      then show ?thesis using Ok la by (intro exI [of _ "[?m]"]) simp
    next
      case False
      then have st': "st' = (uu, fst (attachJobs dc ?m (snd st) jobs), snd (attachJobs dc ?m (snd st) jobs))"
        using assms Ok Some by (simp add: processMetric_unfold)
      obtain new where "snd (attachJobs dc ?m (snd st) jobs) = snd (snd st) @ new"
        "\<forall>x \<in> set new. x\<lparr>Labels := Labels ?m, Attributes := Attributes ?m\<rparr> = ?m"
        using attachJobs_new [of dc ?m "snd st" jobs] by blast
      then show ?thesis using st' Ok la by (intro exI [of _ new]) simp
    qed
  qed
next
  case (Fatal f)
  then show ?thesis using assms by (simp add: processMetric_unfold)
next
  case Panic
  then show ?thesis using assms by (simp add: processMetric_unfold)
qed

lemma scaleValue_cong:
  "Value x = Value m \<Longrightarrow> Counter x = Counter m \<Longrightarrow> scaleValue fl x = scaleValue fl m"
  by (simp add: scaleValue_def)

lemma copy_source:
  assumes "x\<lparr>Labels := l, Attributes := a\<rparr> = enrich fl uu metric"
  shows "Value x = Value metric \<and> Counter x = Counter metric \<and> AlterValue x = scaleValue fl metric"
proof -
  have "Value (x\<lparr>Labels := l, Attributes := a\<rparr>) = Value (enrich fl uu metric)"
    "Counter (x\<lparr>Labels := l, Attributes := a\<rparr>) = Counter (enrich fl uu metric)"
    "AlterValue (x\<lparr>Labels := l, Attributes := a\<rparr>) = AlterValue (enrich fl uu metric)"
    using assms by simp_all
  then show ?thesis by (simp add: enrich_def)
qed

lemma PUSlurm_metric_result:
  assumes "PUSlurm_metric fl fs scan sysInfo st val = Ok (st', x)"
  shows "\<exists>uu. populateUUID sysInfo (gpuUUIDs st) val = Ok uu \<and> x = enrich fl uu val"
proof (cases "populateUUID sysInfo (gpuUUIDs st) val")
  case (Ok uu)
  have "x = val\<lparr>AlterValue := scaleValue fl val, AlterUUID := mapIndex uu (gpuID_of val)\<rparr>"
    using assms unfolding PUSlurm_metric_def Let_def Ok outcome.case
    by (simp split: if_splits)
  then show ?thesis using Ok by (simp add: enrich_def)
next
  case (Fatal f)
  then show ?thesis using assms by (simp add: PUSlurm_metric_def Let_def)
next
  case Panic
  then show ?thesis using assms by (simp add: PUSlurm_metric_def Let_def)
qed

text \<open>
  Every sample that the loops put out stems from an input sample of the same counter:
  it has its counter definition and primary value, and the scaled value of it as its
  alternate value.
\<close>

lemma processMetrics_outputs:
  assumes "processMetrics fl dc sysInfo jm st ms = Ok st'"
  shows "\<exists>new. snd (snd st') = snd (snd st) @ new
     \<and> (\<forall>x \<in> set new. \<exists>m \<in> set ms. Value x = Value m \<and> Counter x = Counter m
            \<and> AlterValue x = scaleValue fl m)"
  using assms
proof (induction ms arbitrary: st)
  case Nil
  then show ?case by simp
next
  case (Cons m ms)
  show ?case
  proof (cases "processMetric fl dc sysInfo jm st m")
    case (Ok st1)
    obtain n1 where n1: "snd (snd st1) = snd (snd st) @ n1"
      "\<forall>x \<in> set n1. x\<lparr>Labels := Labels m, Attributes := Attributes m\<rparr> = enrich fl (fst st1) m"
      using processMetric_outputs [OF Ok] by blast
    have rest: "processMetrics fl dc sysInfo jm st1 ms = Ok st'"
      using Cons.prems Ok by simp
    obtain n2 where n2: "snd (snd st') = snd (snd st1) @ n2"
      "\<forall>x \<in> set n2. \<exists>m \<in> set ms. Value x = Value m \<and> Counter x = Counter m
            \<and> AlterValue x = scaleValue fl m"
      using Cons.IH [OF rest] by blast
    have a: "snd (snd st') = snd (snd st) @ (n1 @ n2)" using n1(1) n2(1) by simp
    have b: "\<forall>x \<in> set (n1 @ n2). \<exists>m' \<in> set (m # ms). Value x = Value m' \<and> Counter x = Counter m'
            \<and> AlterValue x = scaleValue fl m'"
    proof
      fix x assume "x \<in> set (n1 @ n2)"
      then consider "x \<in> set n1" | "x \<in> set n2" by auto
      then show "\<exists>m' \<in> set (m # ms). Value x = Value m' \<and> Counter x = Counter m'
            \<and> AlterValue x = scaleValue fl m'"
      proof cases
        case 1
        then have "x\<lparr>Labels := Labels m, Attributes := Attributes m\<rparr> = enrich fl (fst st1) m"
          using n1(2) by simp
        then have "Value x = Value m \<and> Counter x = Counter m \<and> AlterValue x = scaleValue fl m"
          by (rule copy_source)
        then show ?thesis by simp
      next
        case 2
        then show ?thesis using n2(2) by auto
      qed
    qed
    show ?thesis using a b by blast
  next
    case (Fatal f)
    then show ?thesis using Cons.prems by simp
  next
    case Panic
    then show ?thesis using Cons.prems by simp
  qed
qed

lemma processCounters_outputs:
  assumes "processCounters fl dc sysInfo jm st metrics = Ok (metrics', h')"
  shows "map fst metrics' = map fst metrics
     \<and> (\<forall>(counter, xs) \<in> set metrics'. \<forall>x \<in> set xs. \<exists>ms m. (counter, ms) \<in> set metrics \<and> m \<in> set ms
            \<and> Value x = Value m \<and> Counter x = Counter m \<and> AlterValue x = scaleValue fl m)"
  using assms
proof (induction metrics arbitrary: st metrics' h')
  case Nil
  then show ?case by simp
next
  case (Cons entry rest)
  obtain counter ms where entry: "entry = (counter, ms)" by (cases entry)
  show ?case
  proof (cases "processMetrics fl dc sysInfo jm (fst st, snd st, []) ms")
    case (Ok st1)
    show ?thesis
    proof (cases "processCounters fl dc sysInfo jm (fst st1, fst (snd st1)) rest")
      case (Ok r)
      note r = Ok
      have res: "metrics' = (counter, snd (snd st1)) # fst r" "h' = snd r"
        using Cons.prems entry \<open>processMetrics fl dc sysInfo jm (fst st, snd st, []) ms = Ok st1\<close> r
        by simp_all
      have ih: "map fst (fst r) = map fst rest
        \<and> (\<forall>(counter, xs) \<in> set (fst r). \<forall>x \<in> set xs. \<exists>ms m. (counter, ms) \<in> set rest \<and> m \<in> set ms
            \<and> Value x = Value m \<and> Counter x = Counter m \<and> AlterValue x = scaleValue fl m)"
        using Cons.IH [of "(fst st1, fst (snd st1))" "fst r" "snd r"] r by simp
      obtain new where new: "snd (snd st1) = [] @ new"
        "\<forall>x \<in> set new. \<exists>m \<in> set ms. Value x = Value m \<and> Counter x = Counter m
            \<and> AlterValue x = scaleValue fl m"
        using processMetrics_outputs [OF \<open>processMetrics fl dc sysInfo jm (fst st, snd st, []) ms = Ok st1\<close>]
        by auto
      have hd: "\<forall>x \<in> set (snd (snd st1)). \<exists>ms' m. (counter, ms') \<in> set (entry # rest) \<and> m \<in> set ms'
            \<and> Value x = Value m \<and> Counter x = Counter m \<and> AlterValue x = scaleValue fl m"
        using new entry by fastforce
      have tl: "\<forall>(c, xs) \<in> set (fst r). \<forall>x \<in> set xs. \<exists>ms' m. (c, ms') \<in> set (entry # rest) \<and> m \<in> set ms'
            \<and> Value x = Value m \<and> Counter x = Counter m \<and> AlterValue x = scaleValue fl m"
        using ih by fastforce
      show ?thesis using res(1) ih hd tl entry by simp
    next
      case (Fatal f)
      then show ?thesis
        using Cons.prems entry \<open>processMetrics fl dc sysInfo jm (fst st, snd st, []) ms = Ok st1\<close> by simp
    next
      case Panic
      then show ?thesis
        using Cons.prems entry \<open>processMetrics fl dc sysInfo jm (fst st, snd st, []) ms = Ok st1\<close> by simp
    qed
  next
    case (Fatal f)
    then show ?thesis using Cons.prems entry by simp
  next
    case Panic
    then show ?thesis using Cons.prems entry by simp
  qed
qed

lemma Process_ran:
  assumes "os_Stat fs dir = None" "Process fl fs dc dir sysInfo st = Ok (None, r)"
  shows "\<exists>jm. processCounters fl dc sysInfo jm (Map.empty, snd st) (fst st) = Ok r"
  using assms
  by (auto simp: Process_def split: sum.splits outcome.splits)

lemma PUSlurm_metrics_outputs:
  assumes "PUSlurm_metrics fl fs scan sysInfo st ms = Ok (st', xs)"
  shows "list_all2 (\<lambda>m x. Value x = Value m \<and> Counter x = Counter m \<and> AlterValue x = scaleValue fl m) ms xs"
  using assms
proof (induction ms arbitrary: st st' xs)
  case Nil
  then show ?case by simp
next
  case (Cons m ms)
  show ?case
  proof (cases "PUSlurm_metric fl fs scan sysInfo st m")
    case (Ok r)
    note r = Ok
    show ?thesis
    proof (cases "PUSlurm_metrics fl fs scan sysInfo (fst r) ms")
      case (Ok r2)
      have xs: "xs = snd r # snd r2" using Cons.prems r Ok by simp
      have "PUSlurm_metric fl fs scan sysInfo st m = Ok (fst r, snd r)" using r by simp
      then obtain uu where "snd r = enrich fl uu m" using PUSlurm_metric_result by blast
      then have h: "Value (snd r) = Value m \<and> Counter (snd r) = Counter m
          \<and> AlterValue (snd r) = scaleValue fl m"
        by (simp add: enrich_def)
      have "PUSlurm_metrics fl fs scan sysInfo (fst r) ms = Ok (fst r2, snd r2)" using Ok by simp
      then have t: "list_all2 (\<lambda>m x. Value x = Value m \<and> Counter x = Counter m
          \<and> AlterValue x = scaleValue fl m) ms (snd r2)"
        by (rule Cons.IH)
      show ?thesis unfolding xs using h t by simp
    next
      case (Fatal f)
      then show ?thesis using Cons.prems r by simp
    next
      case Panic
      then show ?thesis using Cons.prems r by simp
    qed
  next
    case (Fatal f)
    then show ?thesis using Cons.prems by simp
  next
    case Panic
    then show ?thesis using Cons.prems by simp
  qed
qed

lemma PUSlurm_counters_outputs:
  assumes "PUSlurm_counters fl fs scan sysInfo st metrics = Ok (st', metrics')"
  shows "list_all2 (\<lambda>(c, ms) (c', xs). c' = c
       \<and> list_all2 (\<lambda>m x. Value x = Value m \<and> Counter x = Counter m \<and> AlterValue x = scaleValue fl m) ms xs)
     metrics metrics'"
  using assms
proof (induction metrics arbitrary: st st' metrics')
  case Nil
  then show ?case by simp
next
  case (Cons entry rest)
  obtain counter ms where entry: "entry = (counter, ms)" by (cases entry)
  show ?case
  proof (cases "PUSlurm_metrics fl fs scan sysInfo st ms")
    case (Ok r)
    note r = Ok
    show ?thesis
    proof (cases "PUSlurm_counters fl fs scan sysInfo (fst r) rest")
      case (Ok r2)
      have res: "metrics' = (counter, snd r) # snd r2" using Cons.prems entry r Ok by simp
      have "PUSlurm_metrics fl fs scan sysInfo st ms = Ok (fst r, snd r)" using r by simp
      then have h: "list_all2 (\<lambda>m x. Value x = Value m \<and> Counter x = Counter m
          \<and> AlterValue x = scaleValue fl m) ms (snd r)"
        by (rule PUSlurm_metrics_outputs)
      have "PUSlurm_counters fl fs scan sysInfo (fst r) rest = Ok (fst r2, snd r2)" using Ok by simp
      then have t: "list_all2 (\<lambda>(c, ms) (c', xs). c' = c
       \<and> list_all2 (\<lambda>m x. Value x = Value m \<and> Counter x = Counter m \<and> AlterValue x = scaleValue fl m) ms xs)
         rest (snd r2)"
        by (rule Cons.IH)
      show ?thesis unfolding res entry using h t by simp
    next
      case (Fatal f)
      then show ?thesis using Cons.prems entry r by simp
    next
      case Panic
      then show ?thesis using Cons.prems entry r by simp
    qed
  next
    case (Fatal f)
    then show ?thesis using Cons.prems entry by simp
  next
    case Panic
    then show ?thesis using Cons.prems entry by simp
  qed
qed

lemma pass_output_source:
  assumes "(os_Stat fs dir = None \<and> Process fl fs dc dir sysInfo (metrics, h) = Ok (None, metrics', h'))
         \<or> PUSlurm_Process fl fs scan sysInfo (metrics, h) = Ok (metrics', h')"
    and "(counter, xs) \<in> set metrics'" and "x \<in> set xs"
  shows "\<exists>ms m. (counter, ms) \<in> set metrics \<and> m \<in> set ms
     \<and> Value x = Value m \<and> Counter x = Counter m \<and> AlterValue x = scaleValue fl m"
  using assms(1)
proof (elim disjE conjE)
  assume "os_Stat fs dir = None" "Process fl fs dc dir sysInfo (metrics, h) = Ok (None, metrics', h')"
  then obtain jm where "processCounters fl dc sysInfo jm (Map.empty, snd (metrics, h)) (fst (metrics, h))
      = Ok (metrics', h')"
    using Process_ran by blast
  then have "processCounters fl dc sysInfo jm (Map.empty, h) metrics = Ok (metrics', h')" by simp
  then have "\<forall>(counter, xs) \<in> set metrics'. \<forall>x \<in> set xs. \<exists>ms m. (counter, ms) \<in> set metrics \<and> m \<in> set ms
            \<and> Value x = Value m \<and> Counter x = Counter m \<and> AlterValue x = scaleValue fl m"
    using processCounters_outputs by blast
  then show ?thesis using assms(2,3) by blast
next
  assume p: "PUSlurm_Process fl fs scan sysInfo (metrics, h) = Ok (metrics', h')"
  let ?P = "\<lambda>m x. Value x = Value m \<and> Counter x = Counter m \<and> AlterValue x = scaleValue fl m"
  obtain st' where "PUSlurm_counters fl fs scan sysInfo
      \<lparr>jobIds = Map.empty, userIds = Map.empty, gpuUUIDs = Map.empty, pu_heap = h\<rparr> metrics = Ok (st', metrics')"
    using p by (auto simp: PUSlurm_Process_def split: outcome.splits)
  then have all: "list_all2 (\<lambda>(c, ms) (c', xs). c' = c \<and> list_all2 ?P ms xs) metrics metrics'"
    by (rule PUSlurm_counters_outputs)
  obtain i where i: "i < length metrics'" "metrics' ! i = (counter, xs)"
    using assms(2) by (auto simp: in_set_conv_nth)
  obtain ms where ms: "metrics ! i = (counter, ms)" "list_all2 ?P ms xs" "i < length metrics"
    using all i by (cases "metrics ! i") (auto simp: list_all2_conv_all_nth)
  obtain j where j: "j < length xs" "xs ! j = x"
    using assms(3) by (auto simp: in_set_conv_nth)
  have "?P (ms ! j) x" "j < length ms"
    using ms(2) j by (auto simp: list_all2_conv_all_nth)
  moreover have "(counter, ms) \<in> set metrics" using ms(1,3) by (metis nth_mem)
  moreover have "ms ! j \<in> set ms" using \<open>j < length ms\<close> by simp
  ultimately show ?thesis by blast
qed

lemma pass_counters:
  assumes "(os_Stat fs dir = None \<and> Process fl fs dc dir sysInfo (metrics, h) = Ok (None, metrics', h'))
         \<or> PUSlurm_Process fl fs scan sysInfo (metrics, h) = Ok (metrics', h')"
  shows "map fst metrics' = map fst metrics"
  using assms
proof (elim disjE conjE)
  assume "os_Stat fs dir = None" "Process fl fs dc dir sysInfo (metrics, h) = Ok (None, metrics', h')"
  then obtain jm where "processCounters fl dc sysInfo jm (Map.empty, snd (metrics, h)) (fst (metrics, h))
      = Ok (metrics', h')"
    using Process_ran by blast
  then have "processCounters fl dc sysInfo jm (Map.empty, h) metrics = Ok (metrics', h')" by simp
  then show ?thesis by (rule processCounters_outputs [THEN conjunct1])
next
  assume p: "PUSlurm_Process fl fs scan sysInfo (metrics, h) = Ok (metrics', h')"
  let ?P = "\<lambda>m x. Value x = Value m \<and> Counter x = Counter m \<and> AlterValue x = scaleValue fl m"
  obtain st' where "PUSlurm_counters fl fs scan sysInfo
      \<lparr>jobIds = Map.empty, userIds = Map.empty, gpuUUIDs = Map.empty, pu_heap = h\<rparr> metrics = Ok (st', metrics')"
    using p by (auto simp: PUSlurm_Process_def split: outcome.splits)
  then have all: "list_all2 (\<lambda>(c, ms) (c', xs). c' = c \<and> list_all2 ?P ms xs) metrics metrics'"
    by (rule PUSlurm_counters_outputs)
  then have "list_all2 (\<lambda>a b. fst b = fst a) metrics metrics'"
    by (rule list_all2_mono) (simp add: case_prod_beta)
  then show ?thesis
    by (induction metrics metrics' rule: list_all2_induct) simp_all
qed

lemma sint_mult_in_range:
  fixes m :: "64 word"
  assumes "- (2 ^ 63) \<le> i" "i < 2 ^ 63" "- (2 ^ 63) \<le> i * sint m" "i * sint m < 2 ^ 63"
  shows "sint (word_of_int i * m) = i * sint m"
proof -
  have "sint (word_of_int i :: 64 word) = i"
    using assms(1,2) by (simp add: sint_sbintrunc' signed_take_bit_int_eq_self)
  then have "sint (word_of_int i * m) = signed_take_bit 63 (i * sint m)"
    by (simp add: sint_word_mult)
  then show ?thesis using assms(3,4) by (simp add: signed_take_bit_int_eq_self)
qed

lemma scaleValue_integer:
  assumes "Multiplier (Counter metric) \<noteq> 1" "Value metric = Sprintf_d i"
    "- (2 ^ 63) \<le> i" "i < 2 ^ 63"
    "- (2 ^ 63) \<le> i * sint (Multiplier (Counter metric))" "i * sint (Multiplier (Counter metric)) < 2 ^ 63"
  shows "scaleValue fl metric = Sprintf_d (i * sint (Multiplier (Counter metric)))"
proof -
  have "\<not> strings_Contains (Value metric) ''.''"
    using assms(2) Sprintf_d_no_point [of i] by (simp add: strings_Contains_single)
  moreover have "fst (Atoi (Value metric)) = i"
    using assms(2,3,4) by (simp add: Atoi_Sprintf_d)
  ultimately show ?thesis
    using assms(1) sint_mult_in_range [OF assms(3,4,5,6)] by (simp add: scaleValue_def)
qed

text \<open>
  Claim C5, amended. Take a pass of \<open>hpcMapper.Process\<close> that found the mapping
  directory and returned \<open>nil\<close>, or a pass of \<open>PUSlurmMapper.Process\<close> that returned.
  The pass keeps the counters, and every sample that it leaves under a counter has the
  counter definition and the primary value of an input sample of that counter, and an
  alternate value that follows the scaling algorithm: it is the primary value when the
  multiplier is 1; else, when the primary value has a decimal point, it is the primary
  value parsed as a floating-point number, times the multiplier, as \<open>%f\<close> writes it;
  else it is the primary value parsed as an integer, times the multiplier in 64-bit
  arithmetic, as \<open>%d\<close> writes it, with no decimal point. In particular the decimal text
  of an integer \<open>i\<close> gives the decimal text of \<open>i\<close> times the multiplier, as long as
  both fit 64 bits.
\<close>

theorem scaling_type_preserving:
  assumes "(os_Stat fs dir = None \<and> Process fl fs dc dir sysInfo (metrics, h) = Ok (None, metrics', h'))
         \<or> PUSlurm_Process fl fs scan sysInfo (metrics, h) = Ok (metrics', h')"
    and "(counter, xs) \<in> set metrics'" and "x \<in> set xs"
  shows "map fst metrics' = map fst metrics
    \<and> (\<exists>ms m. (counter, ms) \<in> set metrics \<and> m \<in> set ms \<and> Value x = Value m \<and> Counter x = Counter m)
    \<and> (Multiplier (Counter x) = 1 \<longrightarrow> AlterValue x = Value x)
    \<and> (Multiplier (Counter x) \<noteq> 1 \<and> CHR ''.'' \<in> set (Value x) \<longrightarrow>
         AlterValue x = Sprintf_f fl (fmul fl (ParseFloat fl (Value x))
                          (float64 fl (sint (Multiplier (Counter x))))))
    \<and> (Multiplier (Counter x) \<noteq> 1 \<and> CHR ''.'' \<notin> set (Value x) \<longrightarrow>
         AlterValue x = Sprintf_d (sint (word_of_int (fst (Atoi (Value x))) * Multiplier (Counter x)))
         \<and> CHR ''.'' \<notin> set (AlterValue x))
    \<and> (\<forall>i. Multiplier (Counter x) \<noteq> 1 \<and> Value x = Sprintf_d i
          \<and> - (2 ^ 63) \<le> i \<and> i < 2 ^ 63
          \<and> - (2 ^ 63) \<le> i * sint (Multiplier (Counter x))
          \<and> i * sint (Multiplier (Counter x)) < 2 ^ 63 \<longrightarrow>
         AlterValue x = Sprintf_d (i * sint (Multiplier (Counter x))))"
proof -
  have cs: "map fst metrics' = map fst metrics"
    using assms(1) by (rule pass_counters)
  obtain ms m where src: "(counter, ms) \<in> set metrics" "m \<in> set ms" "Value x = Value m"
    "Counter x = Counter m" "AlterValue x = scaleValue fl m"
    using pass_output_source [OF assms] by blast
  have av: "AlterValue x = scaleValue fl x"
    using src(5) scaleValue_cong [OF src(3,4), of fl] by simp
  have from_input: "\<exists>ms m. (counter, ms) \<in> set metrics \<and> m \<in> set ms \<and> Value x = Value m
      \<and> Counter x = Counter m"
    using src by blast
  have one: "Multiplier (Counter x) = 1 \<longrightarrow> AlterValue x = Value x"
    by (simp add: av scaleValue_def)
  have flt: "Multiplier (Counter x) \<noteq> 1 \<and> CHR ''.'' \<in> set (Value x) \<longrightarrow>
         AlterValue x = Sprintf_f fl (fmul fl (ParseFloat fl (Value x))
                          (float64 fl (sint (Multiplier (Counter x)))))"
    by (simp add: av scaleValue_def strings_Contains_single)
  have int: "Multiplier (Counter x) \<noteq> 1 \<and> CHR ''.'' \<notin> set (Value x) \<longrightarrow>
         AlterValue x = Sprintf_d (sint (word_of_int (fst (Atoi (Value x))) * Multiplier (Counter x)))
         \<and> CHR ''.'' \<notin> set (AlterValue x)"
    by (simp add: av scaleValue_def strings_Contains_single Sprintf_d_no_point)
  have exact: "\<forall>i. Multiplier (Counter x) \<noteq> 1 \<and> Value x = Sprintf_d i
          \<and> - (2 ^ 63) \<le> i \<and> i < 2 ^ 63
          \<and> - (2 ^ 63) \<le> i * sint (Multiplier (Counter x))
          \<and> i * sint (Multiplier (Counter x)) < 2 ^ 63 \<longrightarrow>
         AlterValue x = Sprintf_d (i * sint (Multiplier (Counter x)))"
    using scaleValue_integer [of x _ fl] by (simp add: av)
  show ?thesis
    by (intro conjI) (rule cs, rule from_input, rule one, rule flt, rule int, rule exact)
qed

lemma Sprintf_d_139: "Sprintf_d 139 = ''139''"
  by (simp add: Sprintf_d_def digits.simps)

lemma Sprintf_d_145752064: "Sprintf_d 145752064 = ''145752064''"
  by (simp add: Sprintf_d_def digits.simps)

lemma Sprintf_d_minus2: "Sprintf_d (- 2) = ''-2''"
  by (simp add: Sprintf_d_def digits.simps)

lemma Process_empty_dir_single:
  "MigProfile m = [] \<Longrightarrow>
   Process fl empty_dir dc dir sysInfo ([(c, [m])], h)
     = Ok (None, [(c, [m\<lparr>AlterValue := scaleValue fl m, AlterUUID := GPUUUID m\<rparr>])], h)"
  by (simp add: Process_def empty_dir_def dir_with_def getGPUFiles_def processMetric_unfold
      populateUUID_def gpuID_of_def lookupJobs_def mapIndex_def enrich_def)

lemma PUSlurm_Process_single:
  "MigProfile m = [] \<Longrightarrow>
   PUSlurm_Process fl (dir_with []) (\<lambda>s. None) sysInfo ([(c, [m])], h)
     = Ok ([(c, [m\<lparr>AlterValue := scaleValue fl m, AlterUUID := GPUUUID m\<rparr>])], h)"
  by (simp add: PUSlurm_Process_def PUSlurm_metric_def Let_def populateUUID_def gpuID_of_def
      mapIndex_def CollectJobInfo_def dir_with_def)

lemma ex_scaled_fields:
  "MigProfile ex_scaled = []" "GPUUUID ex_scaled = ''GPU-abc''" "Value ex_scaled = ''139''"
  "Multiplier (Counter ex_scaled) = 1048576"
  by (simp_all add: ex_scaled_def ex_metric_def ex_counter_def)

lemma ex_metric_fields:
  "MigProfile ex_metric = []" "GPUUUID ex_metric = ''GPU-abc''" "Value ex_metric = ''139''"
  "Multiplier (Counter ex_metric) = 1" "AlterValue ex_metric = []"
  by (simp_all add: ex_metric_def ex_counter_def)

theorem scaling_type_preserving_witness:
  "os_Stat empty_dir ''/run/gpustat'' = None
   \<and> Process ex_float empty_dir (\<lambda>m. True) ''/run/gpustat'' ex_sysInfo ([(ex_counter, [ex_scaled])], ex_heap)
       = Ok (None, [(ex_counter,
                [ex_scaled\<lparr>AlterValue := scaleValue ex_float ex_scaled, AlterUUID := ''GPU-abc''\<rparr>])], ex_heap)
   \<and> Multiplier (Counter ex_scaled) = 1048576 \<and> Value ex_scaled = ''139''
   \<and> AlterValue (ex_scaled\<lparr>AlterValue := scaleValue ex_float ex_scaled, AlterUUID := ''GPU-abc''\<rparr>)
       = ''145752064''
   \<and> PUSlurm_Process ex_float (dir_with []) (\<lambda>s. None) ex_sysInfo ([(ex_counter, [ex_metric])], ex_heap)
       = Ok ([(ex_counter,
                [ex_metric\<lparr>AlterValue := scaleValue ex_float ex_metric, AlterUUID := ''GPU-abc''\<rparr>])], ex_heap)
   \<and> Multiplier (Counter ex_metric) = 1 \<and> Value ex_metric = ''139''
   \<and> AlterValue (ex_metric\<lparr>AlterValue := scaleValue ex_float ex_metric, AlterUUID := ''GPU-abc''\<rparr>)
       = ''139''"
proof -
  define x where "x = ex_scaled\<lparr>AlterValue := scaleValue ex_float ex_scaled, AlterUUID := ''GPU-abc''\<rparr>"
  define y where "y = ex_metric\<lparr>AlterValue := scaleValue ex_float ex_metric, AlterUUID := ''GPU-abc''\<rparr>"
  have st: "os_Stat empty_dir ''/run/gpustat'' = None"
    by (simp add: empty_dir_def dir_with_def)
  have p: "Process ex_float empty_dir (\<lambda>m. True) ''/run/gpustat'' ex_sysInfo ([(ex_counter, [ex_scaled])], ex_heap)
       = Ok (None, [(ex_counter, [x])], ex_heap)"
    unfolding x_def by (simp add: Process_empty_dir_single ex_scaled_fields)
  have q: "PUSlurm_Process ex_float (dir_with []) (\<lambda>s. None) ex_sysInfo ([(ex_counter, [ex_metric])], ex_heap)
       = Ok ([(ex_counter, [y])], ex_heap)"
    unfolding y_def by (simp add: PUSlurm_Process_single ex_metric_fields)
  have hx: "(os_Stat empty_dir ''/run/gpustat'' = None
        \<and> Process ex_float empty_dir (\<lambda>m. True) ''/run/gpustat'' ex_sysInfo ([(ex_counter, [ex_scaled])], ex_heap)
            = Ok (None, [(ex_counter, [x])], ex_heap))
      \<or> PUSlurm_Process ex_float empty_dir (\<lambda>s. None) ex_sysInfo ([(ex_counter, [ex_scaled])], ex_heap)
            = Ok ([(ex_counter, [x])], ex_heap)"
    using st p by (intro disjI1 conjI)
  have hy: "(os_Stat (dir_with []) ''/run/gpustat'' = None
        \<and> Process ex_float (dir_with []) (\<lambda>m. True) ''/run/gpustat'' ex_sysInfo ([(ex_counter, [ex_metric])], ex_heap)
            = Ok (None, [(ex_counter, [y])], ex_heap))
      \<or> PUSlurm_Process ex_float (dir_with []) (\<lambda>s. None) ex_sysInfo ([(ex_counter, [ex_metric])], ex_heap)
            = Ok ([(ex_counter, [y])], ex_heap)"
    using q by (intro disjI2)
  have memx: "(ex_counter, [x]) \<in> set [(ex_counter, [x])]" "x \<in> set [x]" by simp_all
  have memy: "(ex_counter, [y]) \<in> set [(ex_counter, [y])]" "y \<in> set [y]" by simp_all
  have mx: "Multiplier (Counter x) = 1048576" "Value x = ''139''"
    unfolding x_def by (simp_all add: ex_scaled_fields)
  have my: "Multiplier (Counter y) = 1" "Value y = ''139''"
    unfolding y_def by (simp_all add: ex_metric_fields)
  note tx = scaling_type_preserving [OF hx memx]
  note ty = scaling_type_preserving [OF hy memy]
  have allx: "\<forall>i. Multiplier (Counter x) \<noteq> 1 \<and> Value x = Sprintf_d i
          \<and> - (2 ^ 63) \<le> i \<and> i < 2 ^ 63
          \<and> - (2 ^ 63) \<le> i * sint (Multiplier (Counter x))
          \<and> i * sint (Multiplier (Counter x)) < 2 ^ 63 \<longrightarrow>
         AlterValue x = Sprintf_d (i * sint (Multiplier (Counter x)))"
    by (rule tx [THEN conjunct2, THEN conjunct2, THEN conjunct2, THEN conjunct2, THEN conjunct2])
  have "AlterValue x = Sprintf_d (139 * sint (Multiplier (Counter x)))"
    using allx [rule_format, of 139] mx Sprintf_d_139 by simp
  then have ax: "AlterValue x = ''145752064''"
    using mx(1) Sprintf_d_145752064 by simp
  have "Multiplier (Counter y) = 1 \<longrightarrow> AlterValue y = Value y"
    by (rule ty [THEN conjunct2, THEN conjunct2, THEN conjunct1])
  then have ay: "AlterValue y = ''139''" using my by simp
  show ?thesis
    using st p q ax ay ex_scaled_fields(3,4) ex_metric_fields(3,4)
    unfolding x_def y_def by (intro conjI)
qed

lemma Process_unreadable:
  "Process fl unreadable_file dc ''/run/gpustat'' sysInfo st = Ok (Some (OSError ''EIO''), st)"
  by (simp add: Process_def unreadable_file_def dir_with_def getGPUFiles_def readFile_def)

text \<open>
  Claim C5 as stated fails: it speaks of every sample, and the scaling is part of the
  loop. A pass that cannot read a mapping file returns the error before the loop, and a
  pass that does not find the directory returns \<open>nil\<close> before the loop: after either, a
  sample with the multiplier 1 and the value \<open>139\<close> still has its empty alternate
  value.
\<close>

theorem pass_without_loop_leaves_samples_unscaled:
  "Multiplier (Counter ex_metric) = 1 \<and> Value ex_metric = ''139'' \<and> AlterValue ex_metric = []
   \<and> Process ex_float unreadable_file (\<lambda>m. True) ''/run/gpustat'' ex_sysInfo ([(ex_counter, [ex_metric])], ex_heap)
       = Ok (Some (OSError ''EIO''), [(ex_counter, [ex_metric])], ex_heap)
   \<and> Process ex_float absent_dir (\<lambda>m. True) ''/run/gpustat'' ex_sysInfo ([(ex_counter, [ex_metric])], ex_heap)
       = Ok (None, [(ex_counter, [ex_metric])], ex_heap)
   \<and> AlterValue ex_metric \<noteq> Value ex_metric"
proof -
  have "Process ex_float absent_dir (\<lambda>m. True) ''/run/gpustat'' ex_sysInfo ([(ex_counter, [ex_metric])], ex_heap)
       = Ok (None, [(ex_counter, [ex_metric])], ex_heap)"
    by (simp add: Process_def absent_dir_def dir_with_def)
  then show ?thesis by (simp add: Process_unreadable ex_metric_fields)
qed

lemma Atoi_ex_overflow: "Atoi ''9223372036854775808'' = (9223372036854775807, Some ErrRange)"
  by (simp add: Atoi_def ParseInt_def ParseUint_def isDigit_def digitVal_def maxUint64_def)

lemma Atoi_ex_overflow_letter: "Atoi ''99999999999999999999x'' = (9223372036854775807, Some ErrRange)"
  by (simp add: Atoi_def ParseInt_def ParseUint_def isDigit_def digitVal_def maxUint64_def)

lemma Atoi_ex_not_a_number: "Atoi ''N/A'' = (0, Some ErrSyntax)"
  by (simp add: Atoi_not_number isDigit_def)

text \<open>
  Claim C10, amended. Take a sample that a pass leaves (a pass of \<open>hpcMapper.Process\<close>
  that found the mapping directory and returned \<open>nil\<close>, or a pass of
  \<open>PUSlurmMapper.Process\<close> that returned), with a multiplier that is not 1 and a
  primary value with no decimal point. When \<open>Atoi\<close> rejects the value with a syntax
  error, the error is dropped and the alternate value is \<open>"0"\<close>. When \<open>Atoi\<close> reports
  a range error, the error is dropped too, and the alternate value is the decimal text of
  the smallest \<open>int\<close>, for a value that starts with a minus sign, or of the largest
  \<open>int\<close>, for any other value, times the multiplier in 64-bit arithmetic.
\<close>

theorem parse_error_alternate_value:
  assumes "(os_Stat fs dir = None \<and> Process fl fs dc dir sysInfo (metrics, h) = Ok (None, metrics', h'))
         \<or> PUSlurm_Process fl fs scan sysInfo (metrics, h) = Ok (metrics', h')"
    and "(counter, xs) \<in> set metrics'" and "x \<in> set xs"
    and "Multiplier (Counter x) \<noteq> 1" and "CHR ''.'' \<notin> set (Value x)"
  shows "(snd (Atoi (Value x)) = Some ErrSyntax \<longrightarrow> AlterValue x = ''0'')
    \<and> (snd (Atoi (Value x)) = Some ErrRange \<longrightarrow>
         AlterValue x = Sprintf_d (sint (word_of_int
             (if hd (Value x) = CHR ''-'' then - (2 ^ 63) else 2 ^ 63 - 1) * Multiplier (Counter x))))"
proof -
  obtain ms m where src: "Value x = Value m" "Counter x = Counter m" "AlterValue x = scaleValue fl m"
    using pass_output_source [OF assms(1,2,3)] by blast
  have av: "AlterValue x = scaleValue fl x"
    using src(3) scaleValue_cong [OF src(1,2), of fl] by simp
  have nc: "\<not> strings_Contains (Value x) ''.''"
    using assms(5) by (simp add: strings_Contains_single)
  have syn: "snd (Atoi (Value x)) = Some ErrSyntax \<longrightarrow> AlterValue x = ''0''"
    using assms(4) nc by (simp add: av scaleValue_syntax)
  have rng: "snd (Atoi (Value x)) = Some ErrRange \<longrightarrow>
         AlterValue x = Sprintf_d (sint (word_of_int
             (if hd (Value x) = CHR ''-'' then - (2 ^ 63) else 2 ^ 63 - 1) * Multiplier (Counter x)))"
    using assms(4) nc scaleValue_range [of x fl] by (simp add: av)
  show ?thesis by (intro conjI) (rule syn, rule rng)
qed

lemma ex_not_a_number_fields:
  "MigProfile ex_not_a_number = []" "GPUUUID ex_not_a_number = ''GPU-abc''"
  "Value ex_not_a_number = ''N/A''" "Multiplier (Counter ex_not_a_number) = 2"
  by (simp_all add: ex_not_a_number_def ex_metric_def ex_counter_def)

lemma ex_overflow_fields:
  "MigProfile ex_overflow = []" "GPUUUID ex_overflow = ''GPU-abc''"
  "Value ex_overflow = ''9223372036854775808''" "Multiplier (Counter ex_overflow) = 2"
  by (simp_all add: ex_overflow_def ex_metric_def ex_counter_def)

lemma wrapped_max_twice: "sint (word_of_int (2 ^ 63 - 1) * (2 :: 64 word)) = - 2"
  by simp

theorem parse_error_alternate_value_witness:
  "os_Stat empty_dir ''/run/gpustat'' = None
   \<and> Process ex_float empty_dir (\<lambda>m. True) ''/run/gpustat'' ex_sysInfo
         ([(ex_counter, [ex_not_a_number])], ex_heap)
       = Ok (None, [(ex_counter, [ex_not_a_number\<lparr>AlterValue := scaleValue ex_float ex_not_a_number,
                                     AlterUUID := ''GPU-abc''\<rparr>])], ex_heap)
   \<and> Multiplier (Counter ex_not_a_number) = 2 \<and> Value ex_not_a_number = ''N/A''
   \<and> Atoi ''N/A'' = (0, Some ErrSyntax)
   \<and> AlterValue (ex_not_a_number\<lparr>AlterValue := scaleValue ex_float ex_not_a_number,
                    AlterUUID := ''GPU-abc''\<rparr>) = ''0''
   \<and> PUSlurm_Process ex_float (dir_with []) (\<lambda>s. None) ex_sysInfo ([(ex_counter, [ex_overflow])], ex_heap)
       = Ok ([(ex_counter, [ex_overflow\<lparr>AlterValue := scaleValue ex_float ex_overflow,
                               AlterUUID := ''GPU-abc''\<rparr>])], ex_heap)
   \<and> Multiplier (Counter ex_overflow) = 2 \<and> Value ex_overflow = ''9223372036854775808''
   \<and> Atoi ''9223372036854775808'' = (9223372036854775807, Some ErrRange)
   \<and> AlterValue (ex_overflow\<lparr>AlterValue := scaleValue ex_float ex_overflow, AlterUUID := ''GPU-abc''\<rparr>)
       = ''-2''"
proof -
  define x where
    "x = ex_not_a_number\<lparr>AlterValue := scaleValue ex_float ex_not_a_number, AlterUUID := ''GPU-abc''\<rparr>"
  define y where
    "y = ex_overflow\<lparr>AlterValue := scaleValue ex_float ex_overflow, AlterUUID := ''GPU-abc''\<rparr>"
  have st: "os_Stat empty_dir ''/run/gpustat'' = None"
    by (simp add: empty_dir_def dir_with_def)
  have p: "Process ex_float empty_dir (\<lambda>m. True) ''/run/gpustat'' ex_sysInfo
         ([(ex_counter, [ex_not_a_number])], ex_heap) = Ok (None, [(ex_counter, [x])], ex_heap)"
    unfolding x_def by (simp add: Process_empty_dir_single ex_not_a_number_fields)
  have q: "PUSlurm_Process ex_float (dir_with []) (\<lambda>s. None) ex_sysInfo ([(ex_counter, [ex_overflow])], ex_heap)
       = Ok ([(ex_counter, [y])], ex_heap)"
    unfolding y_def by (simp add: PUSlurm_Process_single ex_overflow_fields)
  have hx: "(os_Stat empty_dir ''/run/gpustat'' = None
        \<and> Process ex_float empty_dir (\<lambda>m. True) ''/run/gpustat'' ex_sysInfo
              ([(ex_counter, [ex_not_a_number])], ex_heap) = Ok (None, [(ex_counter, [x])], ex_heap))
      \<or> PUSlurm_Process ex_float empty_dir (\<lambda>s. None) ex_sysInfo ([(ex_counter, [ex_not_a_number])], ex_heap)
            = Ok ([(ex_counter, [x])], ex_heap)"
    using st p by (intro disjI1 conjI)
  have hy: "(os_Stat (dir_with []) ''/run/gpustat'' = None
        \<and> Process ex_float (dir_with []) (\<lambda>m. True) ''/run/gpustat'' ex_sysInfo
              ([(ex_counter, [ex_overflow])], ex_heap) = Ok (None, [(ex_counter, [y])], ex_heap))
      \<or> PUSlurm_Process ex_float (dir_with []) (\<lambda>s. None) ex_sysInfo ([(ex_counter, [ex_overflow])], ex_heap)
            = Ok ([(ex_counter, [y])], ex_heap)"
    using q by (intro disjI2)
  have memx: "(ex_counter, [x]) \<in> set [(ex_counter, [x])]" "x \<in> set [x]" by simp_all
  have memy: "(ex_counter, [y]) \<in> set [(ex_counter, [y])]" "y \<in> set [y]" by simp_all
  have vx: "Value x = ''N/A''" "Multiplier (Counter x) = 2"
    unfolding x_def by (simp_all add: ex_not_a_number_fields)
  have vy: "Value y = ''9223372036854775808''" "Multiplier (Counter y) = 2"
    unfolding y_def by (simp_all add: ex_overflow_fields)
  have mx: "Multiplier (Counter x) \<noteq> 1" "CHR ''.'' \<notin> set (Value x)"
    using vx by simp_all
  have my: "Multiplier (Counter y) \<noteq> 1" "CHR ''.'' \<notin> set (Value y)"
    using vy by simp_all
  note tx = parse_error_alternate_value [OF hx memx mx]
  note ty = parse_error_alternate_value [OF hy memy my]
  have "snd (Atoi (Value x)) = Some ErrSyntax \<longrightarrow> AlterValue x = ''0''"
    by (rule tx [THEN conjunct1])
  then have ax: "AlterValue x = ''0''"
    using vx(1) Atoi_ex_not_a_number by simp
  have "snd (Atoi (Value y)) = Some ErrRange \<longrightarrow>
         AlterValue y = Sprintf_d (sint (word_of_int
             (if hd (Value y) = CHR ''-'' then - (2 ^ 63) else 2 ^ 63 - 1) * Multiplier (Counter y)))"
    by (rule ty [THEN conjunct2])
  then have "AlterValue y = Sprintf_d (sint (word_of_int (2 ^ 63 - 1) * (2 :: 64 word)))"
    using vy Atoi_ex_overflow by simp
  then have ay: "AlterValue y = ''-2''"
    unfolding wrapped_max_twice Sprintf_d_minus2 .
  show ?thesis
    using st p ex_not_a_number_fields(4,3) Atoi_ex_not_a_number ax
      q ex_overflow_fields(4,3) Atoi_ex_overflow ay
    unfolding x_def y_def by (intro conjI)
qed

text \<open>
  Claim C10 as stated fails: the values \<open>9223372036854775808\<close> and
  \<open>99999999999999999999x\<close> have no decimal point and \<open>Atoi\<close> returns an error for both,
  yet with the multiplier 2 the alternate value is \<open>"-2"\<close>, not \<open>"0"\<close>.
\<close>

theorem parse_error_not_always_zero:
  "Multiplier (Counter ex_overflow) \<noteq> 1 \<and> CHR ''.'' \<notin> set (Value ex_overflow)
   \<and> Atoi (Value ex_overflow) = (9223372036854775807, Some ErrRange)
   \<and> Process ex_float empty_dir (\<lambda>m. True) ''/run/gpustat'' ex_sysInfo ([(Counter ex_overflow, [ex_overflow])], ex_heap)
       = Ok (None, [(Counter ex_overflow, [ex_overflow\<lparr>AlterValue := ''-2'', AlterUUID := ''GPU-abc''\<rparr>])], ex_heap)
   \<and> Multiplier (Counter ex_overflow_letter) \<noteq> 1 \<and> CHR ''.'' \<notin> set (Value ex_overflow_letter)
   \<and> Atoi (Value ex_overflow_letter) = (9223372036854775807, Some ErrRange)
   \<and> Process ex_float empty_dir (\<lambda>m. True) ''/run/gpustat'' ex_sysInfo
         ([(Counter ex_overflow_letter, [ex_overflow_letter])], ex_heap)
       = Ok (None, [(Counter ex_overflow_letter,
                     [ex_overflow_letter\<lparr>AlterValue := ''-2'', AlterUUID := ''GPU-abc''\<rparr>])], ex_heap)"
proof -
  have a: "scaleValue ex_float ex_overflow = ''-2''"
    by (simp add: scaleValue_def ex_overflow_def ex_metric_def ex_counter_def Atoi_ex_overflow Sprintf_d_minus2)
  have b: "scaleValue ex_float ex_overflow_letter = ''-2''"
    by (simp add: scaleValue_def ex_overflow_letter_def ex_metric_def ex_counter_def
        Atoi_ex_overflow_letter Sprintf_d_minus2)
  have c: "MigProfile ex_overflow = []" "GPUUUID ex_overflow = ''GPU-abc''"
    "MigProfile ex_overflow_letter = []" "GPUUUID ex_overflow_letter = ''GPU-abc''"
    by (simp_all add: ex_overflow_def ex_overflow_letter_def ex_metric_def)
  have d: "Multiplier (Counter ex_overflow) \<noteq> 1 \<and> CHR ''.'' \<notin> set (Value ex_overflow)
     \<and> Atoi (Value ex_overflow) = (9223372036854775807, Some ErrRange)"
    by (simp add: ex_overflow_def ex_metric_def ex_counter_def Atoi_ex_overflow)
  have e: "Multiplier (Counter ex_overflow_letter) \<noteq> 1 \<and> CHR ''.'' \<notin> set (Value ex_overflow_letter)
     \<and> Atoi (Value ex_overflow_letter) = (9223372036854775807, Some ErrRange)"
    by (simp add: ex_overflow_letter_def ex_metric_def ex_counter_def Atoi_ex_overflow_letter)
  show ?thesis
    using d e by (simp add: Process_empty_dir_single c a b)
qed

section \<open>The topology resolver\<close>

lemma processMetric_fatal:
  assumes "MigProfile metric \<noteq> []" "fst st (gpuID_of metric) = None"
    "FindMIGUUID sysInfo (GPU metric) (GPUInstanceID metric) = Fatal f"
  shows "processMetric fl dc sysInfo jm st metric = Fatal f"
  using assms by (simp add: processMetric_unfold populateUUID_def)

lemma processMetrics_fatal:
  assumes "processMetrics fl dc sysInfo jm st ms = Ok st'"
    "processMetric fl dc sysInfo jm st' m = Fatal f"
  shows "processMetrics fl dc sysInfo jm st (ms @ m # ms') = Fatal f"
  using assms
proof (induction ms arbitrary: st)
  case Nil
  then show ?case by simp
next
  case (Cons a ms)
  then show ?case by (cases "processMetric fl dc sysInfo jm st a") simp_all
qed

lemma Process_fatal_first:
  assumes "os_Stat fs dir = None" "getGPUFiles fs dir = Inr files"
    "loadJobs fs dir Map.empty files = Inr jm"
    "MigProfile metric \<noteq> []"
    "FindMIGUUID sysInfo (GPU metric) (GPUInstanceID metric) = Fatal f"
  shows "Process fl fs dc dir sysInfo ((counter, metric # ms) # rest, h) = Fatal f"
proof -
  have "processMetric fl dc sysInfo jm (Map.empty, h, []) metric = Fatal f"
    using assms(4,5) by (simp add: processMetric_fatal)
  then have "processMetrics fl dc sysInfo jm (Map.empty, h, []) (metric # ms) = Fatal f"
    by simp
  then show ?thesis using assms(1,2,3) by (simp add: Process_def)
qed

text \<open>
  Claim C8, amended. A device index that is no unsigned 32-bit decimal number, or is not
  less than the device count, is fatal. With an index that is, an instance id that is no
  unsigned 32-bit decimal number is fatal as well; one that is such a number and matches
  no instance of the device gives the empty string, and nothing halts (so for the decimal
  text of any index \<open>n\<close> below the count and of any instance id \<open>k\<close> that no instance
  has). A fatal error of the resolver ends the pass: \<open>Process\<close> does not return.
\<close>

theorem FindMIGUUID_contract:
  "(snd (ParseUint gpu 32) \<noteq> None \<longrightarrow> FindMIGUUID sysInfo gpu instanceId = Fatal GPUIdNotInteger)
   \<and> (snd (ParseUint gpu 32) = None \<and> GPUCount sysInfo \<le> fst (ParseUint gpu 32) \<longrightarrow>
        FindMIGUUID sysInfo gpu instanceId = Fatal GPUIdTooBig)
   \<and> (snd (ParseUint gpu 32) = None \<and> fst (ParseUint gpu 32) < GPUCount sysInfo
        \<and> snd (ParseUint instanceId 32) \<noteq> None \<longrightarrow>
        FindMIGUUID sysInfo gpu instanceId = Fatal InstanceIdNotInteger)
   \<and> (snd (ParseUint gpu 32) = None \<and> fst (ParseUint gpu 32) < GPUCount sysInfo
        \<and> GPUCount sysInfo \<le> length (GPUs sysInfo)
        \<and> snd (ParseUint instanceId 32) = None
        \<and> (\<forall>i \<in> set (GPUInstances (GPUs sysInfo ! fst (ParseUint gpu 32))).
              NvmlInstanceId i \<noteq> fst (ParseUint instanceId 32)) \<longrightarrow>
        FindMIGUUID sysInfo gpu instanceId = Ok [])
   \<and> (n < GPUCount sysInfo \<and> GPUCount sysInfo \<le> length (GPUs sysInfo) \<and> n < 2 ^ 32 \<and> k < 2 ^ 32
        \<and> (\<forall>i \<in> set (GPUInstances (GPUs sysInfo ! n)). NvmlInstanceId i \<noteq> k) \<longrightarrow>
        FindMIGUUID sysInfo (digits n) (digits k) = Ok [])
   \<and> (os_Stat fs dir = None \<and> getGPUFiles fs dir = Inr files \<and> loadJobs fs dir Map.empty files = Inr jm
        \<and> MigProfile metric \<noteq> []
        \<and> FindMIGUUID sysInfo (GPU metric) (GPUInstanceID metric) = Fatal f \<longrightarrow>
        Process fl fs dc dir sysInfo ((counter, metric # ms) # rest, h) = Fatal f)"
proof -
  have none: "find P xs = None" if "\<forall>i \<in> set xs. \<not> P i" for P :: "GPUInstance \<Rightarrow> bool" and xs
    using that by (simp add: find_None_iff)
  have a: "snd (ParseUint gpu 32) \<noteq> None \<longrightarrow> FindMIGUUID sysInfo gpu instanceId = Fatal GPUIdNotInteger"
    by (simp add: FindMIGUUID_def)
  have b: "snd (ParseUint gpu 32) = None \<and> GPUCount sysInfo \<le> fst (ParseUint gpu 32) \<longrightarrow>
        FindMIGUUID sysInfo gpu instanceId = Fatal GPUIdTooBig"
    by (simp add: FindMIGUUID_def)
  have c: "snd (ParseUint gpu 32) = None \<and> fst (ParseUint gpu 32) < GPUCount sysInfo
        \<and> snd (ParseUint instanceId 32) \<noteq> None \<longrightarrow>
        FindMIGUUID sysInfo gpu instanceId = Fatal InstanceIdNotInteger"
    by (auto simp: FindMIGUUID_def Let_def)
  have d: "FindMIGUUID sysInfo g inst = Ok []"
    if "snd (ParseUint g 32) = None" "fst (ParseUint g 32) < GPUCount sysInfo"
      "GPUCount sysInfo \<le> length (GPUs sysInfo)" "snd (ParseUint inst 32) = None"
      "\<forall>i \<in> set (GPUInstances (GPUs sysInfo ! fst (ParseUint g 32))).
              NvmlInstanceId i \<noteq> fst (ParseUint inst 32)" for g inst
    using that none [of "GPUInstances (GPUs sysInfo ! fst (ParseUint g 32))"
        "\<lambda>i. NvmlInstanceId i = fst (ParseUint inst 32)"]
    by (simp add: FindMIGUUID_def Let_def)
  have e: "n < GPUCount sysInfo \<and> GPUCount sysInfo \<le> length (GPUs sysInfo) \<and> n < 2 ^ 32 \<and> k < 2 ^ 32
        \<and> (\<forall>i \<in> set (GPUInstances (GPUs sysInfo ! n)). NvmlInstanceId i \<noteq> k) \<longrightarrow>
        FindMIGUUID sysInfo (digits n) (digits k) = Ok []"
    using d [of "digits n" "digits k"] by (simp add: ParseUint_digits_32)
  have f: "os_Stat fs dir = None \<and> getGPUFiles fs dir = Inr files \<and> loadJobs fs dir Map.empty files = Inr jm
        \<and> MigProfile metric \<noteq> []
        \<and> FindMIGUUID sysInfo (GPU metric) (GPUInstanceID metric) = Fatal f \<longrightarrow>
        Process fl fs dc dir sysInfo ((counter, metric # ms) # rest, h) = Fatal f"
    using Process_fatal_first by blast
  show ?thesis using a b c d e f by blast
qed

lemma ParseUint_examples:
  "ParseUint ''x'' 32 = (0, Some ErrSyntax)" "ParseUint ''0'' 32 = (0, None)"
  "ParseUint ''5'' 32 = (5, None)" "ParseUint ''7'' 32 = (7, None)"
  by (simp_all add: ParseUint_def isDigit_def digitVal_def maxUint64_def)

lemma empty_dir_loads:
  "os_Stat empty_dir dir = None" "getGPUFiles empty_dir dir = Inr []"
  "loadJobs empty_dir dir Map.empty [] = Inr Map.empty"
  by (simp_all add: empty_dir_def dir_with_def getGPUFiles_def)

theorem FindMIGUUID_contract_witness:
  "FindMIGUUID ex_sysInfo ''x'' ''7'' = Fatal GPUIdNotInteger
   \<and> FindMIGUUID ex_sysInfo ''5'' ''7'' = Fatal GPUIdTooBig
   \<and> FindMIGUUID ex_sysInfo ''0'' ''x'' = Fatal InstanceIdNotInteger
   \<and> FindMIGUUID ex_sysInfo ''0'' ''7'' = Ok []
   \<and> FindMIGUUID ex_sysInfo (digits 0) (digits 7) = Ok []
   \<and> Process ex_float empty_dir (\<lambda>m. True) ''/run/gpustat'' ex_sysInfo
        ([(ex_counter, [ex_mig_out_of_range])], ex_heap) = Fatal GPUIdTooBig"
proof -
  note c = FindMIGUUID_contract [where sysInfo = ex_sysInfo and fl = ex_float and fs = empty_dir
      and dc = "\<lambda>m. True" and dir = "''/run/gpustat''" and files = "[]" and jm = Map.empty
      and metric = ex_mig_out_of_range and counter = ex_counter and ms = "[]" and rest = "[]"
      and h = ex_heap and f = GPUIdTooBig and n = 0 and k = 7]
  have si: "GPUCount ex_sysInfo = 1" "length (GPUs ex_sysInfo) = 1"
    "GPUInstances (GPUs ex_sysInfo ! 0) = []"
    by (simp_all add: ex_sysInfo_def)
  have m: "MigProfile ex_mig_out_of_range \<noteq> []" "GPU ex_mig_out_of_range = ''5''"
    "GPUInstanceID ex_mig_out_of_range = ''7''"
    by (simp_all add: ex_mig_out_of_range_def ex_metric_def)
  have a: "FindMIGUUID ex_sysInfo ''x'' ''7'' = Fatal GPUIdNotInteger"
    using c [where gpu = "''x''" and instanceId = "''7''"] by (simp add: ParseUint_examples)
  have b: "FindMIGUUID ex_sysInfo ''5'' ''7'' = Fatal GPUIdTooBig"
    using c [where gpu = "''5''" and instanceId = "''7''"] by (simp add: ParseUint_examples si)
  have d: "FindMIGUUID ex_sysInfo ''0'' ''x'' = Fatal InstanceIdNotInteger"
    using c [where gpu = "''0''" and instanceId = "''x''"] by (simp add: ParseUint_examples si)
  have e: "FindMIGUUID ex_sysInfo ''0'' ''7'' = Ok []"
    using c [where gpu = "''0''" and instanceId = "''7''"] by (simp add: ParseUint_examples si)
  have f: "FindMIGUUID ex_sysInfo (digits 0) (digits 7) = Ok []"
    using c [where gpu = "''0''" and instanceId = "''7''"] by (simp add: si)
  have g: "Process ex_float empty_dir (\<lambda>m. True) ''/run/gpustat'' ex_sysInfo
        ([(ex_counter, [ex_mig_out_of_range])], ex_heap) = Fatal GPUIdTooBig"
    using c [where gpu = "''5''" and instanceId = "''7''"] b m by (simp add: empty_dir_loads)
  show ?thesis using a b d e f g by simp
qed

text \<open>
  Claim C8 as stated fails: the device index \<open>0\<close> is valid and the instance id \<open>x\<close>
  matches no instance (the device has none), yet the resolver ends the process.
\<close>

theorem unmatched_instance_id_can_be_fatal:
  "snd (ParseUint ''0'' 32) = None \<and> fst (ParseUint ''0'' 32) < GPUCount ex_sysInfo
   \<and> GPUInstances (GPUs ex_sysInfo ! fst (ParseUint ''0'' 32)) = []
   \<and> FindMIGUUID ex_sysInfo ''0'' ''x'' = Fatal InstanceIdNotInteger
   \<and> GPU ex_mig_bad_instance = ''0'' \<and> GPUInstanceID ex_mig_bad_instance = ''x''
   \<and> Process ex_float empty_dir (\<lambda>m. True) ''/run/gpustat'' ex_sysInfo
        ([(ex_counter, [ex_mig_bad_instance])], ex_heap) = Fatal InstanceIdNotInteger"
proof -
  have si: "GPUCount ex_sysInfo = 1" "GPUInstances (GPUs ex_sysInfo ! 0) = []"
    by (simp_all add: ex_sysInfo_def)
  have m: "MigProfile ex_mig_bad_instance \<noteq> []" "GPU ex_mig_bad_instance = ''0''"
    "GPUInstanceID ex_mig_bad_instance = ''x''"
    by (simp_all add: ex_mig_bad_instance_def ex_metric_def)
  have a: "FindMIGUUID ex_sysInfo ''0'' ''x'' = Fatal InstanceIdNotInteger"
    by (simp add: FindMIGUUID_def ParseUint_examples si)
  have "Process ex_float empty_dir (\<lambda>m. True) ''/run/gpustat'' ex_sysInfo
        ([(ex_counter, [ex_mig_bad_instance])], ex_heap) = Fatal InstanceIdNotInteger"
    using Process_fatal_first [of empty_dir "''/run/gpustat''" "[]" Map.empty ex_mig_bad_instance
        ex_sysInfo InstanceIdNotInteger] a m
    by (simp add: empty_dir_loads)
  then show ?thesis using a m si by (simp add: ParseUint_examples)
qed

section \<open>Job lines\<close>

lemma attribute_names_differ: "HpcJobAttribute \<noteq> HpcUserAttribute"
  by (simp add: HpcJobAttribute_def HpcUserAttribute_def)

lemma map_of_recordAttrs_job: "map_of (recordAttrs r m) HpcJobAttribute = Some (hd (recordTokens r))"
  using attribute_names_differ by (cases r) (simp_all add: update_conv')

lemma map_of_recordAttrs_user:
  "map_of (recordAttrs r m) HpcUserAttribute =
     (case r of JobOnly j \<Rightarrow> map_of m HpcUserAttribute | JobUser j u \<Rightarrow> Some u)"
  using attribute_names_differ by (cases r) (simp_all add: update_conv')

lemma count_list_ge2_Split:
  "2 \<le> count_list job c \<Longrightarrow> c \<in> set job \<and> length (strings_Split job c) \<noteq> 2"
  using count_list_0_iff [of job c] by (auto simp: strings_Split_length)

text \<open>
  Claim C7, amended. For a sample that can be copied, one round of the loop over the job
  lines does this. A line with exactly one space (a token, a space, a token; either may
  be empty) gives a copy of the sample whose job-id attribute is the text before the
  space and whose user-id attribute is the text after it. A line with no space (a tab is
  no space) gives a copy whose job-id attribute is the whole line, with the user-id
  attribute as the sample has it. A line with two or more spaces gives no output sample
  (only the unused maps of the copy stay on the heap), and the loop goes on with the
  lines that follow.
\<close>

theorem job_line_parsing:
  assumes "dc metric"
  shows "(CHR '' '' \<notin> set a \<and> CHR '' '' \<notin> set b \<longrightarrow>
           attachJob dc metric (h, out) (a @ '' '' @ b) =
             (h @ [deref h (Labels metric),
                   AList.update HpcUserAttribute b (AList.update HpcJobAttribute a (deref h (Attributes metric)))],
              out @ [metric\<lparr>Labels := length h, Attributes := Suc (length h)\<rparr>])
           \<and> map_of (AList.update HpcUserAttribute b (AList.update HpcJobAttribute a (deref h (Attributes metric))))
                HpcJobAttribute = Some a
           \<and> map_of (AList.update HpcUserAttribute b (AList.update HpcJobAttribute a (deref h (Attributes metric))))
                HpcUserAttribute = Some b)
    \<and> (CHR '' '' \<notin> set job \<longrightarrow>
           attachJob dc metric (h, out) job =
             (h @ [deref h (Labels metric), AList.update HpcJobAttribute job (deref h (Attributes metric))],
              out @ [metric\<lparr>Labels := length h, Attributes := Suc (length h)\<rparr>])
           \<and> map_of (AList.update HpcJobAttribute job (deref h (Attributes metric))) HpcJobAttribute = Some job
           \<and> map_of (AList.update HpcJobAttribute job (deref h (Attributes metric))) HpcUserAttribute
               = map_of (deref h (Attributes metric)) HpcUserAttribute)
    \<and> (2 \<le> count_list job CHR '' '' \<longrightarrow>
           attachJob dc metric (h, out) job = (h @ [deref h (Labels metric), deref h (Attributes metric)], out)
           \<and> attachJobs dc metric (h, out) (job # jobs)
               = attachJobs dc metric (h @ [deref h (Labels metric), deref h (Attributes metric)], out) jobs)"
proof -
  have pair: "attachJob dc metric (h, out) (a @ '' '' @ b) =
             (h @ [deref h (Labels metric),
                   AList.update HpcUserAttribute b (AList.update HpcJobAttribute a (deref h (Attributes metric)))],
              out @ [metric\<lparr>Labels := length h, Attributes := Suc (length h)\<rparr>])"
    if "CHR '' '' \<notin> set a" "CHR '' '' \<notin> set b"
    using attachJob_record [of dc metric "JobUser a b" h out] assms that by simp
  have single: "attachJob dc metric (h, out) job =
             (h @ [deref h (Labels metric), AList.update HpcJobAttribute job (deref h (Attributes metric))],
              out @ [metric\<lparr>Labels := length h, Attributes := Suc (length h)\<rparr>])"
    if "CHR '' '' \<notin> set job"
    using attachJob_record [of dc metric "JobOnly job" h out] assms that by simp
  have many: "attachJob dc metric (h, out) job = (h @ [deref h (Labels metric), deref h (Attributes metric)], out)"
    if "2 \<le> count_list job CHR '' ''"
    using count_list_ge2_Split [OF that] assms by (simp add: attachJob_eval)
  have maps: "map_of (AList.update HpcUserAttribute b (AList.update HpcJobAttribute a m)) HpcJobAttribute = Some a"
    "map_of (AList.update HpcUserAttribute b (AList.update HpcJobAttribute a m)) HpcUserAttribute = Some b"
    "map_of (AList.update HpcJobAttribute job m) HpcJobAttribute = Some job"
    "map_of (AList.update HpcJobAttribute job m) HpcUserAttribute = map_of m HpcUserAttribute" for m
    using map_of_recordAttrs_job [of "JobUser a b" m] map_of_recordAttrs_user [of "JobUser a b" m]
      map_of_recordAttrs_job [of "JobOnly job" m] map_of_recordAttrs_user [of "JobOnly job" m]
    by simp_all
  have next_line: "attachJobs dc metric (h, out) (job # jobs)
      = attachJobs dc metric (attachJob dc metric (h, out) job) jobs"
    by (simp add: attachJobs_def)
  show ?thesis using pair single many maps next_line by simp
qed

lemma ex_metric_maps: "deref ex_heap (Labels ex_metric) = []" "deref ex_heap (Attributes ex_metric) = []"
  "length ex_heap = 2"
  by (simp_all add: deref_def ex_heap_def ex_metric_def)

theorem job_line_parsing_witness:
  "attachJob (\<lambda>m. True) ex_metric (ex_heap, []) ''100 200'' =
     (ex_heap @ [[], [(HpcJobAttribute, ''100''), (HpcUserAttribute, ''200'')]],
      [ex_metric\<lparr>Labels := 2, Attributes := 3\<rparr>])
   \<and> attachJob (\<lambda>m. True) ex_metric (ex_heap, []) ''300'' =
     (ex_heap @ [[], [(HpcJobAttribute, ''300'')]], [ex_metric\<lparr>Labels := 2, Attributes := 3\<rparr>])
   \<and> count_list ''a b c'' CHR '' '' = 2
   \<and> attachJobs (\<lambda>m. True) ex_metric (ex_heap, []) [''a b c'', ''300''] =
     (ex_heap @ [[], [], [], [(HpcJobAttribute, ''300'')]], [ex_metric\<lparr>Labels := 4, Attributes := 5\<rparr>])"
proof -
  have t: "(\<lambda>m. True) ex_metric" by simp
  note j = job_line_parsing [of "\<lambda>m. True" ex_metric, OF t, where h = ex_heap and out = "[]"]
  have a: "attachJob (\<lambda>m. True) ex_metric (ex_heap, []) ''100 200'' =
     (ex_heap @ [[], [(HpcJobAttribute, ''100''), (HpcUserAttribute, ''200'')]],
      [ex_metric\<lparr>Labels := 2, Attributes := 3\<rparr>])"
    using j [where a = "''100''" and b = "''200''"] attribute_names_differ
    by (simp add: ex_metric_maps numeral_3_eq_3 numeral_2_eq_2)
  have b: "attachJob (\<lambda>m. True) ex_metric (ex_heap, []) ''300'' =
     (ex_heap @ [[], [(HpcJobAttribute, ''300'')]], [ex_metric\<lparr>Labels := 2, Attributes := 3\<rparr>])"
    using j [where job = "''300''"] by (simp add: ex_metric_maps numeral_3_eq_3 numeral_2_eq_2)
  have c: "attachJobs (\<lambda>m. True) ex_metric (ex_heap, []) [''a b c'', ''300''] =
     attachJobs (\<lambda>m. True) ex_metric (ex_heap @ [[], []], []) [''300'']"
    using j [where job = "''a b c''" and jobs = "[''300'']"] by (simp add: ex_metric_maps)
  have t2: "deref (ex_heap @ [[], []]) (Labels ex_metric) = []"
    "deref (ex_heap @ [[], []]) (Attributes ex_metric) = []"
    by (simp_all add: deref_def ex_heap_def ex_metric_def)
  have d: "attachJob (\<lambda>m. True) ex_metric (ex_heap @ [[], []], []) ''300'' =
     (ex_heap @ [[], [], [], [(HpcJobAttribute, ''300'')]], [ex_metric\<lparr>Labels := 4, Attributes := 5\<rparr>])"
    using job_line_parsing [of "\<lambda>m. True" ex_metric, OF t, where h = "ex_heap @ [[], []]" and out = "[]"
        and job = "''300''"]
    by (simp add: t2 ex_metric_maps eval_nat_numeral)
  have e: "attachJobs (\<lambda>m. True) ex_metric (ex_heap, []) [''a b c'', ''300''] =
     (ex_heap @ [[], [], [], [(HpcJobAttribute, ''300'')]], [ex_metric\<lparr>Labels := 4, Attributes := 5\<rparr>])"
    using c d by (simp add: attachJobs_def)
  show ?thesis using a b e by simp
qed

text \<open>
  Claim C7 as stated fails: the lines \<open>100  200\<close> (two spaces) and \<open>100<tab>200\<close> both
  hold one pair of tokens separated by white space; the first is rejected, the second
  gives a copy whose job id is the whole line and that has no user id.
\<close>

theorem whitespace_pair_not_always_parsed:
  "fields ''100  200'' = [''100'', ''200'']
   \<and> attachJob (\<lambda>m. True) ex_metric (ex_heap, []) ''100  200'' = (ex_heap @ [[], []], [])
   \<and> fields (''100'' @ [CHR 0x09] @ ''200'') = [''100'', ''200'']
   \<and> attachJob (\<lambda>m. True) ex_metric (ex_heap, []) (''100'' @ [CHR 0x09] @ ''200'') =
       (ex_heap @ [[], [(HpcJobAttribute, ''100'' @ [CHR 0x09] @ ''200'')]],
        [ex_metric\<lparr>Labels := 2, Attributes := 3\<rparr>])"
proof -
  have f: "fields ''100  200'' = [''100'', ''200'']"
    "fields (''100'' @ [CHR 0x09] @ ''200'') = [''100'', ''200'']"
    by (simp_all add: fields_def isSpace_def)
  have a: "attachJob (\<lambda>m. True) ex_metric (ex_heap, []) ''100  200'' = (ex_heap @ [[], []], [])"
    by (simp add: attachJob_eval ex_metric_maps)
  have b: "attachJob (\<lambda>m. True) ex_metric (ex_heap, []) (''100'' @ [CHR 0x09] @ ''200'') =
       (ex_heap @ [[], [(HpcJobAttribute, ''100'' @ [CHR 0x09] @ ''200'')]],
        [ex_metric\<lparr>Labels := 2, Attributes := 3\<rparr>])"
    by (simp add: attachJob_eval ex_metric_maps eval_nat_numeral)
  show ?thesis using f a b by simp
qed

section \<open>Fan-out\<close>

lemma recordLine_inj_Nil: "map recordLine recs = [] \<longleftrightarrow> recs = []"
  by simp

lemma enrich_refs: "Labels (enrich fl uu m) = Labels m" "Attributes (enrich fl uu m) = Attributes m"
  by (simp_all add: enrich_def)

lemma processMetric_fan_out:
  assumes "populateUUID sysInfo uuids metric = Ok uuids'"
    and "lookupJobs jm (mapIndex uuids' (gpuID_of metric)) (gpuID_of metric) = Some (map recordLine recs)"
    and "recs \<noteq> []"
    and "\<forall>r \<in> set recs. wellFormed r"
    and "dc (enrich fl uuids' metric)"
    and "Labels metric < length h" "Attributes metric < length h"
  shows "processMetric fl dc sysInfo jm (uuids, h, out) metric =
     Ok (uuids', h @ cells (deref h (Labels metric)) (deref h (Attributes metric)) recs,
         out @ copies (enrich fl uuids' metric) (length h) (length recs))"
proof -
  let ?m = "enrich fl uuids' metric"
  have "attachJobs dc ?m (h, out) (map recordLine recs) =
    (h @ cells (deref h (Labels ?m)) (deref h (Attributes ?m)) recs, out @ copies ?m (length h) (length recs))"
    using assms(4,5,6,7) by (intro attachJobs_records) (simp_all add: enrich_refs)
  then show ?thesis
    using assms(1,2,3) by (simp add: processMetric_unfold enrich_refs)
qed

lemma deref_update_other: "r \<noteq> r' \<Longrightarrow> deref (h[r := c]) r' = deref h r'"
  by (simp add: deref_def)

lemma deref_cells_Labels:
  "i < length recs \<Longrightarrow> deref (h @ cells L A recs) (length h + 2 * i) = L"
  using cells_nth [of i recs L A] by (simp add: deref_def cells_length nth_append)

lemma deref_cells_Attributes:
  "i < length recs \<Longrightarrow> deref (h @ cells L A recs) (Suc (length h + 2 * i)) = recordAttrs (recs ! i) A"
  using cells_nth [of i recs L A] by (simp add: deref_def cells_length nth_append)

lemma copies_fresh: "x \<in> set (copies m a k) \<Longrightarrow> a \<le> Labels x \<and> a \<le> Attributes x"
proof (induction k arbitrary: a)
  case 0
  then show ?case by simp
next
  case (Suc k)
  then show ?case by fastforce
qed

text \<open>
  Claim C2, amended. Take a sample whose maps are on the heap and whose device key maps
  to the lines of \<open>k\<close> well-formed job records, \<open>k\<close> at least 1, and let the enriched
  sample be copyable. Then the body of the loop of \<open>Process\<close> appends exactly \<open>k\<close>
  samples. The \<open>i\<close>-th is the enriched sample with two new maps of its own: its labels
  are those of the sample, its attributes are those of the sample with the job id of
  record \<open>i\<close> and, when the record has two tokens, its user id (a record of one token
  leaves the user attribute as the sample has it). The maps that were on the heap are
  unchanged; writing an attribute of one copy changes neither another copy's maps nor
  the sample's; and neither the sample nor the enriched sample is among the outputs.
\<close>

theorem fan_out_exact:
  assumes "populateUUID sysInfo uuids metric = Ok uuids'"
    and "lookupJobs jm (mapIndex uuids' (gpuID_of metric)) (gpuID_of metric) = Some (map recordLine recs)"
    and "recs \<noteq> []"
    and "\<forall>r \<in> set recs. wellFormed r"
    and "dc (enrich fl uuids' metric)"
    and "Labels metric < length h" "Attributes metric < length h"
  shows "\<exists>h' new. processMetric fl dc sysInfo jm (uuids, h, out) metric = Ok (uuids', h', out @ new)
     \<and> length new = length recs
     \<and> take (length h) h' = h
     \<and> (\<forall>i < length recs.
          new ! i = (enrich fl uuids' metric)\<lparr>Labels := length h + 2 * i, Attributes := Suc (length h + 2 * i)\<rparr>
          \<and> deref h' (Labels (new ! i)) = deref h (Labels metric)
          \<and> deref h' (Attributes (new ! i)) = recordAttrs (recs ! i) (deref h (Attributes metric))
          \<and> map_of (deref h' (Attributes (new ! i))) HpcJobAttribute = Some (hd (recordTokens (recs ! i)))
          \<and> map_of (deref h' (Attributes (new ! i))) HpcUserAttribute =
              (case recs ! i of JobOnly j \<Rightarrow> map_of (deref h (Attributes metric)) HpcUserAttribute
               | JobUser j u \<Rightarrow> Some u))
     \<and> (\<forall>i < length recs. \<forall>j < length recs. \<forall>k v. i \<noteq> j \<longrightarrow>
            deref (setAttribute h' (new ! i) k v) (Attributes (new ! j)) = deref h' (Attributes (new ! j))
            \<and> deref (setAttribute h' (new ! i) k v) (Labels (new ! j)) = deref h' (Labels (new ! j))
            \<and> deref (setAttribute h' (new ! i) k v) (Attributes metric) = deref h (Attributes metric)
            \<and> deref (setAttribute h' (new ! i) k v) (Labels metric) = deref h (Labels metric))
     \<and> (\<forall>x \<in> set new. length h \<le> Labels x \<and> length h \<le> Attributes x)
     \<and> metric \<notin> set new \<and> enrich fl uuids' metric \<notin> set new"
proof -
  let ?m = "enrich fl uuids' metric"
  let ?L = "deref h (Labels metric)" and ?A = "deref h (Attributes metric)"
  let ?h' = "h @ cells ?L ?A recs"
  let ?new = "copies ?m (length h) (length recs)"
  have run: "processMetric fl dc sysInfo jm (uuids, h, out) metric = Ok (uuids', ?h', out @ ?new)"
    using assms by (rule processMetric_fan_out)
  have len: "length ?new = length recs" by (simp add: copies_length)
  have old: "take (length h) ?h' = h" by simp
  have nth: "?new ! i = ?m\<lparr>Labels := length h + 2 * i, Attributes := Suc (length h + 2 * i)\<rparr>"
    if "i < length recs" for i using that by (simp add: copies_nth)
  have la: "Labels (?new ! i) = length h + 2 * i" "Attributes (?new ! i) = Suc (length h + 2 * i)"
    if "i < length recs" for i using nth [OF that] by simp_all
  have dl: "deref ?h' (Labels (?new ! i)) = ?L" if "i < length recs" for i
    using that by (simp add: la deref_cells_Labels)
  have da: "deref ?h' (Attributes (?new ! i)) = recordAttrs (recs ! i) ?A" if "i < length recs" for i
    using that by (simp add: la deref_cells_Attributes)
  have each: "\<forall>i < length recs.
          ?new ! i = ?m\<lparr>Labels := length h + 2 * i, Attributes := Suc (length h + 2 * i)\<rparr>
          \<and> deref ?h' (Labels (?new ! i)) = ?L
          \<and> deref ?h' (Attributes (?new ! i)) = recordAttrs (recs ! i) ?A
          \<and> map_of (deref ?h' (Attributes (?new ! i))) HpcJobAttribute = Some (hd (recordTokens (recs ! i)))
          \<and> map_of (deref ?h' (Attributes (?new ! i))) HpcUserAttribute =
              (case recs ! i of JobOnly j \<Rightarrow> map_of ?A HpcUserAttribute | JobUser j u \<Rightarrow> Some u)"
    using nth dl da by (simp add: map_of_recordAttrs_job map_of_recordAttrs_user)
  have orig: "deref ?h' (Labels metric) = ?L" "deref ?h' (Attributes metric) = ?A"
    using assms(6,7) by (simp_all add: deref_append)
  have indep: "\<forall>i < length recs. \<forall>j < length recs. \<forall>k v. i \<noteq> j \<longrightarrow>
            deref (setAttribute ?h' (?new ! i) k v) (Attributes (?new ! j)) = deref ?h' (Attributes (?new ! j))
            \<and> deref (setAttribute ?h' (?new ! i) k v) (Labels (?new ! j)) = deref ?h' (Labels (?new ! j))
            \<and> deref (setAttribute ?h' (?new ! i) k v) (Attributes metric) = ?A
            \<and> deref (setAttribute ?h' (?new ! i) k v) (Labels metric) = ?L"
  proof (intro allI impI)
    fix i j k v
    assume i: "i < length recs" and j: "j < length recs" and ij: "i \<noteq> j"
    have 1: "Attributes (?new ! i) \<noteq> Attributes (?new ! j)" using ij by (simp add: la i j)
    have 2: "Attributes (?new ! i) \<noteq> Labels (?new ! j)" by (simp add: la i j) presburger
    have 3: "Attributes (?new ! i) \<noteq> Attributes metric" "Attributes (?new ! i) \<noteq> Labels metric"
      using assms(6,7) by (simp_all add: la i)
    show "deref (setAttribute ?h' (?new ! i) k v) (Attributes (?new ! j)) = deref ?h' (Attributes (?new ! j))
            \<and> deref (setAttribute ?h' (?new ! i) k v) (Labels (?new ! j)) = deref ?h' (Labels (?new ! j))
            \<and> deref (setAttribute ?h' (?new ! i) k v) (Attributes metric) = ?A
            \<and> deref (setAttribute ?h' (?new ! i) k v) (Labels metric) = ?L"
      unfolding setAttribute_def using 1 2 3 orig by (simp add: deref_update_other)
  qed
  have fresh: "\<forall>x \<in> set ?new. length h \<le> Labels x \<and> length h \<le> Attributes x"
    using copies_fresh by blast
  have notin: "metric \<notin> set ?new" "?m \<notin> set ?new"
    using fresh assms(7) by (auto simp: enrich_refs)
  show ?thesis
    using run len old each indep fresh notin by blast
qed

lemma ex_metric_populate: "populateUUID ex_sysInfo Map.empty ex_metric = Ok [''0'' \<mapsto> ''GPU-abc'']"
  "gpuID_of ex_metric = ''0''" "mapIndex [''0'' \<mapsto> ''GPU-abc''] ''0'' = ''GPU-abc''"
  by (simp_all add: populateUUID_def gpuID_of_def mapIndex_def ex_metric_def)

lemma list_of_two: "length xs = 2 \<Longrightarrow> xs = [xs ! 0, xs ! 1]"
  by (cases xs; cases "tl xs") auto

theorem fan_out_exact_witness:
  "populateUUID ex_sysInfo Map.empty ex_metric = Ok [''0'' \<mapsto> ''GPU-abc'']
   \<and> lookupJobs [''0'' \<mapsto> [''100 200'', ''300'']] ''GPU-abc'' ''0''
        = Some (map recordLine [JobUser ''100'' ''200'', JobOnly ''300''])
   \<and> wellFormed (JobUser ''100'' ''200'') \<and> wellFormed (JobOnly ''300'')
   \<and> Labels ex_metric < length ex_heap \<and> Attributes ex_metric < length ex_heap
   \<and> (\<exists>h'. processMetric ex_float (\<lambda>m. True) ex_sysInfo [''0'' \<mapsto> [''100 200'', ''300'']]
              (Map.empty, ex_heap, []) ex_metric
            = Ok ([''0'' \<mapsto> ''GPU-abc''], h',
                  [(enrich ex_float [''0'' \<mapsto> ''GPU-abc''] ex_metric)\<lparr>Labels := 2, Attributes := 3\<rparr>,
                   (enrich ex_float [''0'' \<mapsto> ''GPU-abc''] ex_metric)\<lparr>Labels := 4, Attributes := 5\<rparr>])
          \<and> deref h' 3 = [(HpcJobAttribute, ''100''), (HpcUserAttribute, ''200'')]
          \<and> deref h' 5 = [(HpcJobAttribute, ''300'')])"
proof -
  let ?jm = "[''0'' \<mapsto> [''100 200'', ''300'']]"
  let ?recs = "[JobUser ''100'' ''200'', JobOnly ''300'']"
  let ?u = "[''0'' \<mapsto> ''GPU-abc'']"
  let ?m = "enrich ex_float ?u ex_metric"
  have look0: "lookupJobs ?jm ''GPU-abc'' ''0'' = Some (map recordLine ?recs)"
    by (simp add: lookupJobs_def)
  have look: "lookupJobs ?jm (mapIndex ?u (gpuID_of ex_metric)) (gpuID_of ex_metric) = Some (map recordLine ?recs)"
    using look0 by (simp add: ex_metric_populate)
  have ne: "?recs \<noteq> []" by simp
  have wf: "\<forall>r \<in> set ?recs. wellFormed r" by simp
  have dc: "(\<lambda>m. True) ?m" by simp
  have refs: "Labels ex_metric < length ex_heap" "Attributes ex_metric < length ex_heap"
    by (simp_all add: ex_metric_def ex_heap_def)
  obtain h' new where r:
    "processMetric ex_float (\<lambda>m. True) ex_sysInfo ?jm (Map.empty, ex_heap, []) ex_metric = Ok (?u, h', [] @ new)"
    "length new = length ?recs"
    "\<forall>i < length ?recs.
          new ! i = ?m\<lparr>Labels := length ex_heap + 2 * i, Attributes := Suc (length ex_heap + 2 * i)\<rparr>
          \<and> deref h' (Labels (new ! i)) = deref ex_heap (Labels ex_metric)
          \<and> deref h' (Attributes (new ! i)) = recordAttrs (?recs ! i) (deref ex_heap (Attributes ex_metric))
          \<and> map_of (deref h' (Attributes (new ! i))) HpcJobAttribute = Some (hd (recordTokens (?recs ! i)))
          \<and> map_of (deref h' (Attributes (new ! i))) HpcUserAttribute =
              (case ?recs ! i of JobOnly j \<Rightarrow> map_of (deref ex_heap (Attributes ex_metric)) HpcUserAttribute
               | JobUser j u \<Rightarrow> Some u)"
    using fan_out_exact [OF ex_metric_populate(1) look ne wf dc refs, where out = "[]"] by blast
  have i0: "0 < length ?recs" and i1: "1 < length ?recs" by simp_all
  note f0 = r(3) [rule_format, OF i0] and f1 = r(3) [rule_format, OF i1]
  have n0: "new ! 0 = ?m\<lparr>Labels := 2, Attributes := 3\<rparr>"
    using f0 [THEN conjunct1] by (simp add: ex_metric_maps eval_nat_numeral)
  have n1: "new ! 1 = ?m\<lparr>Labels := 4, Attributes := 5\<rparr>"
    using f1 [THEN conjunct1] by (simp add: ex_metric_maps eval_nat_numeral)
  have a0: "deref h' 3 = [(HpcJobAttribute, ''100''), (HpcUserAttribute, ''200'')]"
    using f0 [THEN conjunct2, THEN conjunct2, THEN conjunct1] attribute_names_differ
    by (simp add: n0 ex_metric_maps)
  have a1: "deref h' 5 = [(HpcJobAttribute, ''300'')]"
    using f1 [THEN conjunct2, THEN conjunct2, THEN conjunct1]
    using n1 by (simp add: ex_metric_maps)
  have new: "new = [?m\<lparr>Labels := 2, Attributes := 3\<rparr>, ?m\<lparr>Labels := 4, Attributes := 5\<rparr>]"
    using list_of_two [of new] r(2) n0 n1 by simp
  have "processMetric ex_float (\<lambda>m. True) ex_sysInfo ?jm (Map.empty, ex_heap, []) ex_metric
      = Ok (?u, h', [?m\<lparr>Labels := 2, Attributes := 3\<rparr>, ?m\<lparr>Labels := 4, Attributes := 5\<rparr>])"
    using r(1) new by simp
  then have ex: "\<exists>h'. processMetric ex_float (\<lambda>m. True) ex_sysInfo ?jm (Map.empty, ex_heap, []) ex_metric
            = Ok (?u, h', [?m\<lparr>Labels := 2, Attributes := 3\<rparr>, ?m\<lparr>Labels := 4, Attributes := 5\<rparr>])
          \<and> deref h' 3 = [(HpcJobAttribute, ''100''), (HpcUserAttribute, ''200'')]
          \<and> deref h' 5 = [(HpcJobAttribute, ''300'')]"
    using a0 a1 by blast
  have wf2: "wellFormed (JobUser ''100'' ''200'') \<and> wellFormed (JobOnly ''300'')" by simp
  show ?thesis
    using ex look0 refs wf2 ex_metric_populate(1) by blast
qed

text \<open>
  Claim C2 as stated fails for \<open>k = 0\<close>: when the device key maps to an empty list of
  records (the mapping file is empty), the output for the sample is not empty; it is the
  sample itself, enriched, with the maps it had.
\<close>

theorem no_job_record_no_fan_out:
  "lookupJobs [''0'' \<mapsto> []] ''GPU-abc'' ''0'' = Some []
   \<and> processMetric ex_float (\<lambda>m. True) ex_sysInfo [''0'' \<mapsto> []] (Map.empty, ex_heap, []) ex_metric
       = Ok ([''0'' \<mapsto> ''GPU-abc''], ex_heap, [enrich ex_float [''0'' \<mapsto> ''GPU-abc''] ex_metric])
   \<and> Labels (enrich ex_float [''0'' \<mapsto> ''GPU-abc''] ex_metric) = Labels ex_metric
   \<and> Attributes (enrich ex_float [''0'' \<mapsto> ''GPU-abc''] ex_metric) = Attributes ex_metric
   \<and> Process ex_float (dir_with []) (\<lambda>m. True) ''/run/gpustat'' ex_sysInfo ([(ex_counter, [ex_metric])], ex_heap)
       = Ok (None, [(ex_counter, [ex_metric\<lparr>AlterValue := ''139'', AlterUUID := ''GPU-abc''\<rparr>])], ex_heap)"
proof -
  have a: "lookupJobs [''0'' \<mapsto> []] ''GPU-abc'' ''0'' = Some []"
    by (simp add: lookupJobs_def)
  have b: "processMetric ex_float (\<lambda>m. True) ex_sysInfo [''0'' \<mapsto> []] (Map.empty, ex_heap, []) ex_metric
       = Ok ([''0'' \<mapsto> ''GPU-abc''], ex_heap, [enrich ex_float [''0'' \<mapsto> ''GPU-abc''] ex_metric])"
    by (simp add: processMetric_unfold ex_metric_populate a)
  have sv: "scaleValue ex_float ex_metric = ''139''"
    by (simp add: scaleValue_def ex_metric_def ex_counter_def)
  have e: "enrich ex_float [''0'' \<mapsto> ''GPU-abc''] ex_metric
      = ex_metric\<lparr>AlterValue := ''139'', AlterUUID := ''GPU-abc''\<rparr>"
    by (simp add: enrich_def sv ex_metric_populate)
  have jm: "loadJobs (dir_with []) ''/run/gpustat'' Map.empty [''0''] = Inr [''0'' \<mapsto> []]"
    by (simp add: dir_with_def readFile_def)
  have c: "Process ex_float (dir_with []) (\<lambda>m. True) ''/run/gpustat'' ex_sysInfo ([(ex_counter, [ex_metric])], ex_heap)
       = Ok (None, [(ex_counter, [ex_metric\<lparr>AlterValue := ''139'', AlterUUID := ''GPU-abc''\<rparr>])], ex_heap)"
    using b e jm by (simp add: Process_def getGPUFiles_def dir_with_def)
  show ?thesis using a b c by (simp add: enrich_refs)
qed

section \<open>Samples without job records\<close>

text \<open>When every line of a job list is rejected, the fan-out appends nothing.\<close>

lemma attachJobs_all_rejected:
  "\<forall>job \<in> set jobs. 2 \<le> count_list job CHR '' '' \<Longrightarrow> snd (attachJobs dc m st jobs) = snd st"
proof (induction jobs arbitrary: st)
  case Nil
  then show ?case by (simp add: attachJobs_def)
next
  case (Cons job jobs)
  have rej: "CHR '' '' \<in> set job \<and> length (strings_Split job CHR '' '') \<noteq> 2"
    using Cons.prems count_list_ge2_Split [of job "CHR '' ''"] by simp
  have "snd (attachJob dc m st job) = snd st"
  proof (cases "dc m")
    case True
    then show ?thesis using rej attachJob_eval [of dc m "fst st" "snd st" job] by simp
  next
    case False
    then show ?thesis by (simp add: attachJob_no_copy)
  qed
  moreover have "snd (attachJobs dc m (attachJob dc m st job) jobs) = snd (attachJob dc m st job)"
    using Cons.prems by (intro Cons.IH) simp
  ultimately show ?case by (simp add: attachJobs_def)
qed

lemma processMetric_all_rejected:
  assumes "populateUUID sysInfo uuids metric = Ok uuids'"
    and "lookupJobs jm (mapIndex uuids' (gpuID_of metric)) (gpuID_of metric) = Some jobs"
    and "jobs \<noteq> []" and "\<forall>job \<in> set jobs. 2 \<le> count_list job CHR '' ''"
  shows "\<exists>h'. processMetric fl dc sysInfo jm (uuids, h, out) metric = Ok (uuids', h', out)"
  using assms attachJobs_all_rejected [of jobs dc "enrich fl uuids' metric" "(h, out)"]
  by (simp add: processMetric_unfold)

text \<open>
  Claim C3 does not hold of the code: a sample is dropped when every record of its job
  list is rejected. With the mapping file \<open>0\<close> holding the one line \<open>a b c\<close>, the pass
  returns no error and leaves the counter of the sample of device \<open>0\<close> with no sample
  at all (the two maps of the copy that was made and dropped stay on the heap).
\<close>

theorem malformed_only_drops_sample:
  "Process ex_float (dir_with [''a b c'']) (\<lambda>m. True) ''/run/gpustat'' ex_sysInfo
      ([(ex_counter, [ex_metric])], ex_heap)
     = Ok (None, [(ex_counter, [])], ex_heap @ [[], []])"
proof -
  have jm: "loadJobs (dir_with [''a b c'']) ''/run/gpustat'' Map.empty [''0''] = Inr [''0'' \<mapsto> [''a b c'']]"
    by (simp add: dir_with_def readFile_def)
  have look: "lookupJobs [''0'' \<mapsto> [''a b c'']] ''GPU-abc'' ''0'' = Some [''a b c'']"
    by (simp add: lookupJobs_def)
  let ?m = "enrich ex_float [''0'' \<mapsto> ''GPU-abc''] ex_metric"
  have d: "deref ex_heap (Labels ?m) = []" "deref ex_heap (Attributes ?m) = []"
    by (simp_all add: enrich_refs ex_metric_maps)
  have att: "attachJobs (\<lambda>m. True) ?m (ex_heap, []) [''a b c''] = (ex_heap @ [[], []], [])"
    by (simp add: attachJobs_def attachJob_eval d)
  have step: "processMetric ex_float (\<lambda>m. True) ex_sysInfo [''0'' \<mapsto> [''a b c'']] (Map.empty, ex_heap, []) ex_metric
       = Ok ([''0'' \<mapsto> ''GPU-abc''], ex_heap @ [[], []], [])"
    by (simp add: processMetric_unfold ex_metric_populate look att)
  show ?thesis
    using step jm by (simp add: Process_def getGPUFiles_def dir_with_def)
qed

text \<open>
  Claim C4 does not hold of the code: with the mapping directory absent, \<open>Process\<close>
  returns at once and leaves the sample without alternate value and alternate
  identifier; with the directory there and empty, it sets both.
\<close>

theorem absent_directory_skips_enrichment:
  "Process ex_float absent_dir (\<lambda>m. True) ''/run/gpustat'' ex_sysInfo ([(ex_counter, [ex_metric])], ex_heap)
     = Ok (None, [(ex_counter, [ex_metric])], ex_heap)
   \<and> Process ex_float empty_dir (\<lambda>m. True) ''/run/gpustat'' ex_sysInfo ([(ex_counter, [ex_metric])], ex_heap)
     = Ok (None, [(ex_counter, [ex_metric\<lparr>AlterValue := ''139'', AlterUUID := ''GPU-abc''\<rparr>])], ex_heap)
   \<and> AlterValue ex_metric = [] \<and> AlterUUID ex_metric = []"
proof -
  have a: "Process ex_float absent_dir (\<lambda>m. True) ''/run/gpustat'' ex_sysInfo ([(ex_counter, [ex_metric])], ex_heap)
     = Ok (None, [(ex_counter, [ex_metric])], ex_heap)"
    by (simp add: Process_def absent_dir_def dir_with_def)
  have sv: "scaleValue ex_float ex_metric = ''139''"
    by (simp add: scaleValue_def ex_metric_def ex_counter_def)
  have m: "MigProfile ex_metric = []" "GPUUUID ex_metric = ''GPU-abc''"
    "AlterValue ex_metric = []" "AlterUUID ex_metric = []"
    by (simp_all add: ex_metric_def)
  show ?thesis using a by (simp add: Process_empty_dir_single m sv)
qed

text \<open>With the directory absent the call changes nothing, whatever the metrics.\<close>

lemma Process_absent_dir:
  "os_Stat fs dir = Some err \<Longrightarrow> Process fl fs dc dir sysInfo st = Ok (None, st)"
  by (simp add: Process_def)

text \<open>A sample with no entry in the job index, or an empty one, is passed on, enriched, with its maps.\<close>

lemma pass_through_without_jobs:
  assumes "populateUUID sysInfo uuids metric = Ok uuids'"
    and "lookupJobs jm (mapIndex uuids' (gpuID_of metric)) (gpuID_of metric) = None
         \<or> lookupJobs jm (mapIndex uuids' (gpuID_of metric)) (gpuID_of metric) = Some []"
  shows "processMetric fl dc sysInfo jm (uuids, h, out) metric = Ok (uuids', h, out @ [enrich fl uuids' metric])"
  using assms by (auto simp: processMetric_unfold)

section \<open>Rendering\<close>

lemma RenderSlurm_no_attributes:
  "deref h (Attributes metric) = [] \<Longrightarrow> RenderSlurm h [(counter, [metric])] = strJobId_init @ strUserId_init"
  by (simp add: RenderSlurm_def slurmStep_def Let_def index_or_empty_def)

lemma gpuMetricsFormat_single:
  assumes "AlterFieldName counter = []" "MigProfile metric = []" "Hostname metric = []"
    "deref h (Labels metric) = []" "deref h (Attributes metric) = []"
  shows \<open>gpuMetricsFormat h [(counter, [metric])] =
      ''# HELP '' @ FieldName counter @ '' '' @ Help counter @ ''\<newline># TYPE '' @ FieldName counter
        @ '' '' @ PromType counter @ ''\<newline>'' @ FieldName counter @ ''{gpu="'' @ GPU metric @ ''",''
        @ UUID metric @ ''="'' @ AlterUUID metric @ ''",pci_bus_id="'' @ GPUPCIBusID metric
        @ ''",device="'' @ GPUDevice metric @ ''",modelName="'' @ GPUModelName metric @ ''"} ''
        @ Value metric @ ''\<newline>''\<close>
  using assms
  by (simp add: gpuMetricsFormat_def gpuCounterBlock_def headerLines_def gpuLine_def migFields_def
      hostnameField_def renderPairs_def)

lemma RenderGroup_GPU:
  "RenderGroup h FE_GPU metrics ranged = (None, gpuMetricsFormat h metrics @ RenderSlurm h ranged)"
  by (simp add: RenderGroup_def)

text \<open>
  Claim C6, amended. For a counter with no alternate name and one sample with no
  partition profile, no host name, no label and no attribute, the template of the
  standalone-device class writes exactly the HELP line, the TYPE line and the line of the
  sample, each followed by a line feed; the value of the UUID label is the alternate
  identifier of the sample (what enrichment derived), not its device UUID.
  \<open>RenderGroup\<close> writes that text and, after it, the header lines of the two
  compatibility gauges (the map has one entry, so that the template and \<open>RenderSlurm\<close>
  visit the same list). For the sample of the specification after enrichment this is the
  expected text followed by a line feed and the four header lines.
\<close>

theorem gpu_round_trip:
  assumes "AlterFieldName counter = []" "MigProfile metric = []" "Hostname metric = []"
    "deref h (Labels metric) = []" "deref h (Attributes metric) = []"
  shows \<open>gpuMetricsFormat h [(counter, [metric])] =
      ''# HELP '' @ FieldName counter @ '' '' @ Help counter @ ''\<newline># TYPE '' @ FieldName counter
        @ '' '' @ PromType counter @ ''\<newline>'' @ FieldName counter @ ''{gpu="'' @ GPU metric @ ''",''
        @ UUID metric @ ''="'' @ AlterUUID metric @ ''",pci_bus_id="'' @ GPUPCIBusID metric
        @ ''",device="'' @ GPUDevice metric @ ''",modelName="'' @ GPUModelName metric @ ''"} ''
        @ Value metric @ ''\<newline>''
    \<and> RenderGroup h FE_GPU [(counter, [metric])] [(counter, [metric])] =
      (None, gpuMetricsFormat h [(counter, [metric])] @ strJobId_init @ strUserId_init)\<close>
  using assms
  by (simp add: gpuMetricsFormat_def gpuCounterBlock_def headerLines_def gpuLine_def migFields_def
      hostnameField_def renderPairs_def RenderGroup_def RenderSlurm_no_attributes)

lemma ex_enriched_fields:
  "AlterFieldName ex_counter = []" "MigProfile ex_enriched = []" "Hostname ex_enriched = []"
  "deref ex_heap (Labels ex_enriched) = []" "deref ex_heap (Attributes ex_enriched) = []"
  by (simp_all add: ex_counter_def ex_enriched_def ex_metric_def ex_heap_def deref_def)

theorem gpu_round_trip_witness:
  "Process ex_float empty_dir (\<lambda>m. True) ''/run/gpustat'' ex_sysInfo ([(ex_counter, [ex_metric])], ex_heap)
     = Ok (None, [(ex_counter, [ex_enriched])], ex_heap)
   \<and> gpuMetricsFormat ex_heap [(ex_counter, [ex_enriched])] = roundtrip_text ''help'' @ ''\<newline>''
   \<and> RenderGroup ex_heap FE_GPU [(ex_counter, [ex_enriched])] [(ex_counter, [ex_enriched])]
       = (None, roundtrip_text ''help'' @ ''\<newline>'' @ strJobId_init @ strUserId_init)"
proof -
  have sv: "scaleValue ex_float ex_metric = ''139''"
    by (simp add: scaleValue_def ex_metric_def ex_counter_def)
  have m: "MigProfile ex_metric = []" "GPUUUID ex_metric = ''GPU-abc''"
    by (simp_all add: ex_metric_def)
  have p: "Process ex_float empty_dir (\<lambda>m. True) ''/run/gpustat'' ex_sysInfo ([(ex_counter, [ex_metric])], ex_heap)
     = Ok (None, [(ex_counter, [ex_enriched])], ex_heap)"
    by (simp add: Process_empty_dir_single m sv ex_enriched_def)
  note g = gpu_round_trip [OF ex_enriched_fields]
  have t: "gpuMetricsFormat ex_heap [(ex_counter, [ex_enriched])] = roundtrip_text ''help'' @ ''\<newline>''"
    using g [THEN conjunct1]
    by (simp add: roundtrip_text_def ex_counter_def ex_enriched_def ex_metric_def)
  show ?thesis using p t g [THEN conjunct2] by simp
qed

text \<open>
  Claim C6 as stated fails. Rendering the sample with device UUID \<open>GPU-abc\<close> as
  collected gives an empty UUID label; rendering it after enrichment gives the expected
  text with more text after it, and the template alone still ends in a line feed.
\<close>

theorem round_trip_text_not_exact:
  \<open>snd (RenderGroup ex_heap FE_GPU [(ex_counter, [ex_metric])] [(ex_counter, [ex_metric])]) \<noteq> roundtrip_text ''help''
   \<and> snd (RenderGroup ex_heap FE_GPU [(ex_counter, [ex_metric])] [(ex_counter, [ex_metric])])
       = ''# HELP X help\<newline># TYPE X gauge\<newline>X{gpu="0",UUID="",pci_bus_id="",device="",modelName=""} 139\<newline>''
         @ strJobId_init @ strUserId_init
   \<and> snd (RenderGroup ex_heap FE_GPU [(ex_counter, [ex_enriched])] [(ex_counter, [ex_enriched])])
       = roundtrip_text ''help'' @ ''\<newline>'' @ strJobId_init @ strUserId_init
   \<and> gpuMetricsFormat ex_heap [(ex_counter, [ex_enriched])] \<noteq> roundtrip_text ''help''\<close>
proof -
  have f: "AlterFieldName ex_counter = []" "MigProfile ex_metric = []" "Hostname ex_metric = []"
    "deref ex_heap (Labels ex_metric) = []" "deref ex_heap (Attributes ex_metric) = []"
    by (simp_all add: ex_counter_def ex_metric_def ex_heap_def deref_def)
  have fmt: \<open>gpuMetricsFormat ex_heap [(ex_counter, [ex_metric])]
      = ''# HELP X help\<newline># TYPE X gauge\<newline>X{gpu="0",UUID="",pci_bus_id="",device="",modelName=""} 139\<newline>''\<close>
    unfolding gpuMetricsFormat_single [OF f] by (simp add: ex_counter_def ex_metric_def)
  have raw: \<open>snd (RenderGroup ex_heap FE_GPU [(ex_counter, [ex_metric])] [(ex_counter, [ex_metric])])
      = ''# HELP X help\<newline># TYPE X gauge\<newline>X{gpu="0",UUID="",pci_bus_id="",device="",modelName=""} 139\<newline>''
        @ strJobId_init @ strUserId_init\<close>
    by (simp add: RenderGroup_GPU fmt RenderSlurm_no_attributes f)
  have a: "snd (RenderGroup ex_heap FE_GPU [(ex_counter, [ex_metric])] [(ex_counter, [ex_metric])]) \<noteq> roundtrip_text ''help''"
    unfolding raw by (simp add: roundtrip_text_def)
  have t: "gpuMetricsFormat ex_heap [(ex_counter, [ex_enriched])] = roundtrip_text ''help'' @ ''\<newline>''"
    unfolding gpuMetricsFormat_single [OF ex_enriched_fields]
    by (simp add: roundtrip_text_def ex_counter_def ex_enriched_def ex_metric_def)
  have c: "snd (RenderGroup ex_heap FE_GPU [(ex_counter, [ex_enriched])] [(ex_counter, [ex_enriched])])
       = roundtrip_text ''help'' @ ''\<newline>'' @ strJobId_init @ strUserId_init"
    by (simp add: RenderGroup_GPU t RenderSlurm_no_attributes ex_enriched_fields)
  have d: "gpuMetricsFormat ex_heap [(ex_counter, [ex_enriched])] \<noteq> roundtrip_text ''help''"
    unfolding t by simp
  show ?thesis using a raw c d by simp
qed

section \<open>The compatibility gauges\<close>

lemma ex_metric_refs: "Labels ex_metric < length ex_heap" "Attributes ex_metric < length ex_heap"
  "Labels ex_metric = 0" "Attributes ex_metric = 1"
  by (simp_all add: ex_metric_def ex_heap_def)

lemma Process_two_jobs:
  "Process ex_float (dir_with [''100 200'', ''300'']) (\<lambda>m. True) ''/run/gpustat'' ex_sysInfo
     ([(ex_counter, [ex_metric])], ex_heap) = Ok (None, ex_two_jobs)"
proof -
  have jm: "loadJobs (dir_with [''100 200'', ''300'']) ''/run/gpustat'' Map.empty [''0'']
      = Inr [''0'' \<mapsto> [''100 200'', ''300'']]"
    by (simp add: dir_with_def readFile_def)
  have look: "lookupJobs [''0'' \<mapsto> [''100 200'', ''300'']] ''GPU-abc'' ''0''
      = Some (map recordLine [JobUser ''100'' ''200'', JobOnly ''300''])"
    by (simp add: lookupJobs_def)
  have sv: "scaleValue ex_float ex_metric = ''139''"
    by (simp add: scaleValue_def ex_metric_def ex_counter_def)
  have e: "enrich ex_float [''0'' \<mapsto> ''GPU-abc''] ex_metric = ex_enriched"
    by (simp add: enrich_def sv ex_metric_populate ex_enriched_def)
  have step: "processMetric ex_float (\<lambda>m. True) ex_sysInfo [''0'' \<mapsto> [''100 200'', ''300'']]
      (Map.empty, ex_heap, []) ex_metric
      = Ok ([''0'' \<mapsto> ''GPU-abc''],
            ex_heap @ cells (deref ex_heap (Labels ex_metric)) (deref ex_heap (Attributes ex_metric))
              [JobUser ''100'' ''200'', JobOnly ''300''],
            [] @ copies (enrich ex_float [''0'' \<mapsto> ''GPU-abc''] ex_metric) (length ex_heap)
              (length [JobUser ''100'' ''200'', JobOnly ''300'']))"
    by (rule processMetric_fan_out) (simp_all add: ex_metric_populate look ex_metric_refs(1,2))
  have step2: "processMetric ex_float (\<lambda>m. True) ex_sysInfo [''0'' \<mapsto> [''100 200'', ''300'']]
      (Map.empty, ex_heap, []) ex_metric
      = Ok ([''0'' \<mapsto> ''GPU-abc''], snd ex_two_jobs, snd (hd (fst ex_two_jobs)))"
    unfolding step e
    by (simp add: ex_two_jobs_def ex_metric_refs(3,4) deref_def ex_heap_def HpcJobAttribute_def
        HpcUserAttribute_def eval_nat_numeral)
  show ?thesis
    using step2 jm by (simp add: Process_def getGPUFiles_def dir_with_def ex_two_jobs_def)
qed

lemma strings_Contains_sublist: "strings_Contains s sub = sublist sub s"
  by (induction s) (simp_all add: sublist_Cons_right)

lemma strings_Contains_middle: "strings_Contains (a @ b @ c) b"
  by (simp add: strings_Contains_sublist)

text \<open>
  Once a line of a device is in \<open>strJobId\<close>, every later sample with the same device
  fields is skipped, whatever its job and user.
\<close>

lemma slurmStep_skips_same_device:
  assumes "index_or_empty (deref h (Attributes m1)) HpcJobAttribute \<noteq> []"
    and "slurmProps m2 = slurmProps m1"
  shows "slurmStep h (slurmStep h st m1) m2 = slurmStep h st m1"
proof (cases "strings_Contains (fst st) (slurmProps m1)")
  case True
  then show ?thesis using assms(2) by (simp add: slurmStep_def)
next
  case False
  have "strings_Contains (fst (slurmStep h st m1)) (slurmProps m1)"
    using False assms(1) strings_Contains_middle [of "fst st @ ''nvidia_gpu_jobId''" "slurmProps m1"]
    by (simp add: slurmStep_def Let_def)
  then show ?thesis using assms(2) by (simp add: slurmStep_def [of h "slurmStep h st m1"])
qed

lemma ex_two_jobs_props:
  \<open>slurmProps (ex_enriched\<lparr>Labels := l, Attributes := a\<rparr>)
     = ''{minor_number="0",uuid="GPU-abc",device="",modelName="",GPU_I_PROFILE="",GPU_I_ID=""''\<close>
  by (simp add: slurmProps_def ex_enriched_def ex_metric_def)

lemma ex_two_jobs_attrs:
  "index_or_empty (deref (snd ex_two_jobs) 3) HpcJobAttribute = ''100''"
  "index_or_empty (deref (snd ex_two_jobs) 3) HpcUserAttribute = ''200''"
  "index_or_empty (deref (snd ex_two_jobs) 5) HpcJobAttribute = ''300''"
  "index_or_empty (deref (snd ex_two_jobs) 5) HpcUserAttribute = []"
  by (simp_all add: index_or_empty_def deref_def ex_two_jobs_def HpcJobAttribute_def HpcUserAttribute_def)

lemma strJobId_init_no_device:
  \<open>\<not> strings_Contains strJobId_init
     ''{minor_number="0",uuid="GPU-abc",device="",modelName="",GPU_I_PROFILE="",GPU_I_ID=""''\<close>
  by (simp add: strJobId_init_def)

text \<open>
  Claim C1 does not hold of the code. With the mapping file \<open>0\<close> holding the lines
  \<open>100 200\<close> and \<open>300\<close>, the pass fans the sample of device \<open>0\<close> out into two
  samples, one of job 100 and user 200 and one of job 300. \<open>RenderSlurm\<close> writes the
  lines of the first and none of the second: the device fields of the second are a
  substring of the line that is already in the buffer.
\<close>

theorem second_job_of_device_not_rendered:
  \<open>Process ex_float (dir_with [''100 200'', ''300'']) (\<lambda>m. True) ''/run/gpustat'' ex_sysInfo
     ([(ex_counter, [ex_metric])], ex_heap) = Ok (None, ex_two_jobs)
   \<and> index_or_empty (deref (snd ex_two_jobs) 3) HpcJobAttribute = ''100''
   \<and> index_or_empty (deref (snd ex_two_jobs) 5) HpcJobAttribute = ''300''
   \<and> RenderSlurm (snd ex_two_jobs) (fst ex_two_jobs) =
       strJobId_init
       @ ''nvidia_gpu_jobId{minor_number="0",uuid="GPU-abc",device="",modelName="",GPU_I_PROFILE="",GPU_I_ID="",jobid="100",userid="200"} 100\<newline>''
       @ strUserId_init
       @ ''nvidia_gpu_jobUid{minor_number="0",uuid="GPU-abc",device="",modelName="",GPU_I_PROFILE="",GPU_I_ID="",jobid="100",userid="200"} 200\<newline>''\<close>
proof -
  let ?m1 = "ex_enriched\<lparr>Labels := 2, Attributes := 3\<rparr>"
  let ?m2 = "ex_enriched\<lparr>Labels := 4, Attributes := 5\<rparr>"
  let ?h = "snd ex_two_jobs"
  have a1: "Attributes ?m1 = 3" "Attributes ?m2 = 5" by simp_all
  have first: \<open>slurmStep ?h (strJobId_init, strUserId_init) ?m1 =
      (strJobId_init
       @ ''nvidia_gpu_jobId{minor_number="0",uuid="GPU-abc",device="",modelName="",GPU_I_PROFILE="",GPU_I_ID="",jobid="100",userid="200"} 100\<newline>'',
       strUserId_init
       @ ''nvidia_gpu_jobUid{minor_number="0",uuid="GPU-abc",device="",modelName="",GPU_I_PROFILE="",GPU_I_ID="",jobid="100",userid="200"} 200\<newline>'')\<close>
    by (simp add: slurmStep_def Let_def ex_two_jobs_props a1 ex_two_jobs_attrs strJobId_init_no_device)
  have second: "slurmStep ?h (slurmStep ?h (strJobId_init, strUserId_init) ?m1) ?m2
      = slurmStep ?h (strJobId_init, strUserId_init) ?m1"
    by (rule slurmStep_skips_same_device) (simp_all add: a1 ex_two_jobs_attrs ex_two_jobs_props)
  have ms: "fst ex_two_jobs = [(ex_counter, [?m1, ?m2])]" by (simp add: ex_two_jobs_def)
  have r: "RenderSlurm ?h (fst ex_two_jobs)
      = fst (slurmStep ?h (strJobId_init, strUserId_init) ?m1) @ snd (slurmStep ?h (strJobId_init, strUserId_init) ?m1)"
    unfolding ms RenderSlurm_def Let_def using second by simp
  show ?thesis
    unfolding r first using Process_two_jobs ex_two_jobs_attrs(1,3) by simp
qed

end
